theory Spec2Isabelle
  imports Complex_Main "HOL-Library.AList" "HOL-Library.Char_ord" "HOL-Library.List_Lexorder"
begin

section \<open>Data model\<close>

text \<open>
  The contrast engine of \<^verbatim>\<open>ibc_public/utils_contrasts.py\<close> works on Python
  dictionaries from contrast names to numpy arrays. A dictionary is an association list
  in insertion order with distinct keys; assigning to a key that is present replaces
  its value in place, assigning to a new key appends it (\<^const>\<open>AList.update\<close>).
  A float64 entry of an array is the rational number it denotes. The vectors of the
  definitions below are built from the rows of an identity matrix by sums, differences
  and integer factors, which float64 computes exactly; where an operation rounds (in
  \<open>vstm\<close>), its result is rounded with \<open>fl\<close>.
\<close>

datatype error =
    KeyError string
  | ValueError string
  | IndexError
  | TypeError
  | AssertionError

datatype val =
    Vec "rat list"
  | Mat "rat list list"
  | Str string

type_synonym contrast_set = "(string \<times> val) list"

definition keys :: "contrast_set \<Rightarrow> string list" where
  "keys d = map fst d"

text \<open>\<^verbatim>\<open>d[k]\<close>: the value stored under \<open>k\<close>, or \<^verbatim>\<open>KeyError\<close>.\<close>

definition getitem :: "contrast_set \<Rightarrow> string \<Rightarrow> error + val" where
  "getitem d k = (case map_of d k of None \<Rightarrow> Inl (KeyError k) | Some v \<Rightarrow> Inr v)"

text \<open>\<^verbatim>\<open>np.eye(n)[i]\<close> for \<open>i < n\<close>.\<close>

definition eye_row :: "nat \<Rightarrow> nat \<Rightarrow> rat list" where
  "eye_row n i = map (\<lambda>j. if j = i then 1 else 0) [0..<n]"

text \<open>\<^verbatim>\<open>'%d' % i\<close> for a natural number.\<close>

fun str_of_nat :: "nat \<Rightarrow> string" where
  "str_of_nat n =
     (if n < 10 then [''0123456789'' ! n]
      else str_of_nat (n div 10) @ [''0123456789'' ! (n mod 10)])"

section \<open>Elementary contrasts and the two derived extensions\<close>

text \<open>
  \<^verbatim>\<open>
  def _elementary_contrasts(design_matrix_columns):
      con = {}
      n_columns = len(design_matrix_columns)
      for i in range(n_columns):
          con[design_matrix_columns[i]] = np.eye(n_columns)[i]
      return con
  \<close>
\<close>

definition elementary_contrasts :: "string list \<Rightarrow> contrast_set" where
  "elementary_contrasts design_matrix_columns =
     (let n_columns = length design_matrix_columns
      in fold (\<lambda>i con. AList.update (design_matrix_columns ! i) (Vec (eye_row n_columns i)) con)
           [0..<n_columns] [])"

definition nuisance :: "string list" where
  "nuisance =
     [''tx'', ''ty'', ''tz'', ''rx'', ''ry'', ''rz'', ''constant''] @
     map (\<lambda>i. ''drift_'' @ str_of_nat i) [0..<20] @
     map (\<lambda>i. ''conf_'' @ str_of_nat i) [0..<20]"

text \<open>\<^verbatim>\<open>s[-11:]\<close>: the last eleven characters, the whole string when it is shorter.\<close>

definition last11 :: "string \<Rightarrow> string" where
  "last11 s = drop (length s - 11) s"

text \<open>
  The body of the loop of \<^verbatim>\<open>_append_effects_interest_contrast\<close>: the two
  \<^verbatim>\<open>continue\<close> leave the accumulated list as it is.
\<close>

definition effects_interest_step :: "string list \<Rightarrow> nat \<Rightarrow> nat \<Rightarrow> rat list list \<Rightarrow> rat list list" where
  "effects_interest_step design_matrix_columns n_columns i con =
     (if design_matrix_columns ! i \<in> set nuisance then con
      else if length (design_matrix_columns ! i) > 11 then
        (if last11 (design_matrix_columns ! i) = ''_derivative'' then con
         else con @ [eye_row n_columns i])
      else con @ [eye_row n_columns i])"

definition effects_interest_rows :: "string list \<Rightarrow> rat list list" where
  "effects_interest_rows design_matrix_columns =
     (let n_columns = length design_matrix_columns
      in fold (effects_interest_step design_matrix_columns n_columns) [0..<n_columns] [])"

definition append_effects_interest_contrast :: "string list \<Rightarrow> contrast_set \<Rightarrow> contrast_set" where
  "append_effects_interest_contrast design_matrix_columns contrast =
     (let con = effects_interest_rows design_matrix_columns
      in if con \<noteq> [] then AList.update ''effects_interest'' (Mat con) contrast
         else contrast)"

definition derivative_step :: "string list \<Rightarrow> nat \<Rightarrow> nat \<Rightarrow> rat list list \<Rightarrow> rat list list" where
  "derivative_step design_matrix_columns n_columns i con =
     (if length (design_matrix_columns ! i) > 11 then
        (if last11 (design_matrix_columns ! i) = ''_derivative'' then con @ [eye_row n_columns i]
         else con)
      else con)"

definition derivative_rows :: "string list \<Rightarrow> rat list list" where
  "derivative_rows design_matrix_columns =
     (let n_columns = length design_matrix_columns
      in fold (derivative_step design_matrix_columns n_columns) [0..<n_columns] [])"

definition append_derivative_contrast :: "string list \<Rightarrow> contrast_set \<Rightarrow> contrast_set" where
  "append_derivative_contrast design_matrix_columns contrast =
     (let con = derivative_rows design_matrix_columns
      in if con \<noteq> [] then AList.update ''derivatives'' (Mat con) contrast
         else contrast)"

section \<open>Evaluation of Python expressions\<close>

text \<open>
  An expression that may raise has type \<open>error + 'a\<close>; \<open>then_do\<close> runs the rest of
  the computation on its value and passes its exception on.
\<close>

definition then_do :: "error + 'a \<Rightarrow> ('a \<Rightarrow> error + 'b) \<Rightarrow> error + 'b" where
  "then_do m f = (case m of Inl e \<Rightarrow> Inl e | Inr x \<Rightarrow> f x)"

text \<open>
  Arithmetic of numpy on the one-dimensional arrays of one design matrix, which all have
  \<^verbatim>\<open>n_columns\<close> entries. The definitions below apply it to nothing else; operands of
  another kind or of different lengths are an error of the model.
\<close>

fun v_add :: "val \<Rightarrow> val \<Rightarrow> error + val" where
  "v_add (Vec a) (Vec b) =
     (if length a = length b then Inr (Vec (map2 (+) a b)) else Inl TypeError)"
| "v_add _ _ = Inl TypeError"

fun v_sub :: "val \<Rightarrow> val \<Rightarrow> error + val" where
  "v_sub (Vec a) (Vec b) =
     (if length a = length b then Inr (Vec (map2 (-) a b)) else Inl TypeError)"
| "v_sub _ _ = Inl TypeError"

fun v_neg :: "val \<Rightarrow> error + val" where
  "v_neg (Vec a) = Inr (Vec (map uminus a))"
| "v_neg _ = Inl TypeError"

fun v_scale :: "rat \<Rightarrow> val \<Rightarrow> error + val" where
  "v_scale c (Vec a) = Inr (Vec (map ((*) c) a))"
| "v_scale c _ = Inl TypeError"

text \<open>Operands are evaluated from left to right; the first exception wins.\<close>

definition e_add :: "error + val \<Rightarrow> error + val \<Rightarrow> error + val" where
  "e_add x y = then_do x (\<lambda>a. then_do y (\<lambda>b. v_add a b))"

definition e_sub :: "error + val \<Rightarrow> error + val \<Rightarrow> error + val" where
  "e_sub x y = then_do x (\<lambda>a. then_do y (\<lambda>b. v_sub a b))"

definition e_neg :: "error + val \<Rightarrow> error + val" where
  "e_neg x = then_do x v_neg"

definition e_scale :: "rat \<Rightarrow> error + val \<Rightarrow> error + val" where
  "e_scale c x = then_do x (v_scale c)"

text \<open>
  A dictionary display \<^verbatim>\<open>{k1: e1, k2: e2, ...}\<close> and \<^verbatim>\<open>dict([(k1, e1), ...])\<close>:
  the entries are evaluated and stored in order.
\<close>

fun dict_literal :: "contrast_set \<Rightarrow> (string \<times> (error + val)) list \<Rightarrow> error + contrast_set" where
  "dict_literal acc [] = Inr acc"
| "dict_literal acc ((k, e) # rest) =
     (case e of Inl err \<Rightarrow> Inl err | Inr v \<Rightarrow> dict_literal (AList.update k v acc) rest)"

text \<open>
  A sequence of assignments \<^verbatim>\<open>contrasts[k] = e\<close>, where \<open>e\<close> may read the
  dictionary as the earlier assignments left it.
\<close>

fun assign_all :: "contrast_set \<Rightarrow> (string \<times> (contrast_set \<Rightarrow> error + val)) list \<Rightarrow> error + contrast_set" where
  "assign_all contrasts [] = Inr contrasts"
| "assign_all contrasts ((k, e) # rest) =
     (case e contrasts of Inl err \<Rightarrow> Inl err
      | Inr v \<Rightarrow> assign_all (AList.update k v contrasts) rest)"

text \<open>\<^verbatim>\<open>try: body  except KeyError: handler\<close>.\<close>

definition except_KeyError :: "error + 'a \<Rightarrow> error + 'a \<Rightarrow> error + 'a" where
  "except_KeyError body handler =
     (case body of Inl (KeyError k) \<Rightarrow> handler | Inl e \<Rightarrow> Inl e | Inr v \<Rightarrow> Inr v)"

text \<open>A list comprehension whose elements may raise.\<close>

fun sequence :: "(error + 'a) list \<Rightarrow> error + 'a list" where
  "sequence [] = Inr []"
| "sequence (e # es) =
     (case e of Inl err \<Rightarrow> Inl err
      | Inr v \<Rightarrow> (case sequence es of Inl err \<Rightarrow> Inl err | Inr vs \<Rightarrow> Inr (v # vs)))"

section \<open>Paradigm definitions\<close>

text \<open>
  Called with \<^verbatim>\<open>None\<close>, a definition declares its names:
  \<^verbatim>\<open>dict([(name, []) for name in contrast_names])\<close>. The empty Python list is the
  empty vector.
\<close>

definition declared :: "string list \<Rightarrow> error + contrast_set" where
  "declared contrast_names = dict_literal [] (map (\<lambda>name. (name, Inr (Vec []))) contrast_names)"

text \<open>
  The common end of a definition:
  \<^verbatim>\<open>
  assert((sorted(contrasts.keys()) == sorted(contrast_names)))
  _append_derivative_contrast(design_matrix_columns, contrasts)
  _append_effects_interest_contrast(design_matrix_columns, contrasts)
  return contrasts
  \<close>
\<close>

definition check_and_extend :: "string list \<Rightarrow> string list \<Rightarrow> contrast_set \<Rightarrow> error + contrast_set" where
  "check_and_extend design_matrix_columns contrast_names contrasts =
     (if sort (keys contrasts) = sort contrast_names then
        Inr (append_effects_interest_contrast design_matrix_columns
               (append_derivative_contrast design_matrix_columns contrasts))
      else Inl AssertionError)"

definition wedge :: "string list option \<Rightarrow> error + contrast_set" where
  "wedge design_matrix_columns =
     (let contrast_names =
            [''lower_meridian'', ''lower_right'', ''right_meridian'', ''upper_right'',
             ''upper_meridian'', ''upper_left'', ''left_meridian'', ''lower_left'']
      in case design_matrix_columns of
           None \<Rightarrow> declared contrast_names
         | Some cols \<Rightarrow>
             (let con = elementary_contrasts cols
              in then_do (dict_literal [] (map (\<lambda>name. (name, getitem con name)) contrast_names))
                   (check_and_extend cols contrast_names)))"

definition ring :: "string list option \<Rightarrow> error + contrast_set" where
  "ring design_matrix_columns =
     (let contrast_names = [''foveal'', ''middle'', ''peripheral'']
      in case design_matrix_columns of
           None \<Rightarrow> declared contrast_names
         | Some cols \<Rightarrow>
             (let con = elementary_contrasts cols
              in then_do (dict_literal [] (map (\<lambda>name. (name, getitem con name)) contrast_names))
                   (check_and_extend cols contrast_names)))"

definition two_by_two :: "string list option \<Rightarrow> error + contrast_set" where
  "two_by_two design_matrix_columns =
     (let contrast_names =
            [''task_stay_cue_stay'', ''task_switch_cue_switch'',
             ''task_switch_cue_stay'', ''task_stay_cue_switch'',
             ''task_switch-stay'', ''task_repetition'']
      in case design_matrix_columns of
           None \<Rightarrow> declared contrast_names
         | Some cols \<Rightarrow>
             (let con = elementary_contrasts cols
              in then_do (dict_literal []
                   [(''task_stay_cue_stay'', getitem con ''taskstay_cuestay''),
                    (''task_switch_cue_switch'', getitem con ''taskswitch_cueswitch''),
                    (''task_switch_cue_stay'', getitem con ''taskswitch_cuestay''),
                    (''task_stay_cue_switch'', getitem con ''taskstay_cueswitch''),
                    (''task_switch-stay'',
                       e_sub (e_add (getitem con ''taskswitch_cueswitch'')
                                    (getitem con ''taskswitch_cuestay''))
                             (e_scale 2 (getitem con ''taskstay_cueswitch''))),
                    (''cue_switch'',
                       e_sub (getitem con ''taskstay_cueswitch'')
                             (getitem con ''taskstay_cuestay''))])
                   (check_and_extend cols contrast_names)))"

definition stroop :: "string list option \<Rightarrow> error + contrast_set" where
  "stroop design_matrix_columns =
     (let contrast_names =
            [''congruent'', ''incongruent'', ''congruent-incongruent'', ''incongruent-congruent'']
      in case design_matrix_columns of
           None \<Rightarrow> declared contrast_names
         | Some cols \<Rightarrow>
             (let con = elementary_contrasts cols
              in then_do (dict_literal []
                   [(''congruent'', getitem con ''congruent''),
                    (''incongruent'', getitem con ''incongruent''),
                    (''incongruent-congruent'',
                       e_sub (getitem con ''incongruent'') (getitem con ''congruent''))])
                   (check_and_extend cols contrast_names)))"

definition lyon_mcse :: "string list option \<Rightarrow> error + contrast_set" where
  "lyon_mcse design_matrix_columns =
     (let contrast_names =
            [''high_salience_left'', ''high_salience_right'',
             ''low_salience_left'', ''low_salience_right'',
             ''low-high_salience'', ''salience_left-right'',
             ''low+high_salience'']
      in case design_matrix_columns of
           None \<Rightarrow> declared contrast_names
         | Some cols \<Rightarrow>
             (let con = elementary_contrasts cols
              in then_do (dict_literal []
                   [(''high_salience_left'', getitem con ''hi_salience_left''),
                    (''high_salience_right'', getitem con ''hi_salience_right''),
                    (''low_salience_left'', getitem con ''low_salience_left''),
                    (''low_salience_right'', getitem con ''low_salience_right''),
                    (''high-low_salience'',
                       e_sub (e_sub (e_add (getitem con ''hi_salience_left'')
                                           (getitem con ''hi_salience_right''))
                                    (getitem con ''low_salience_left''))
                             (getitem con ''low_salience_right'')),
                    (''low-high_salience'',
                       e_add (e_add (e_sub (e_neg (getitem con ''hi_salience_left''))
                                           (getitem con ''hi_salience_right''))
                                    (getitem con ''low_salience_left''))
                             (getitem con ''low_salience_right'')),
                    (''salience_left-right'',
                       e_sub (e_add (e_sub (getitem con ''hi_salience_left'')
                                           (getitem con ''hi_salience_right''))
                                    (getitem con ''low_salience_left''))
                             (getitem con ''low_salience_right'')),
                    (''salience_right-left'',
                       e_add (e_sub (e_add (e_neg (getitem con ''hi_salience_left''))
                                           (getitem con ''hi_salience_right''))
                                    (getitem con ''low_salience_left''))
                             (getitem con ''low_salience_right'')),
                    (''low+high_salience'',
                       e_add (e_add (e_add (getitem con ''hi_salience_left'')
                                           (getitem con ''hi_salience_right''))
                                    (getitem con ''low_salience_left''))
                             (getitem con ''low_salience_right''))])
                   (check_and_extend cols contrast_names)))"

text \<open>
  The self-referential memory paradigm. Each \<^verbatim>\<open>try\<close> block of the source is one
  \<^const>\<open>except_KeyError\<close>; a \<^verbatim>\<open>KeyError\<close> raised in a handler is not caught.
\<close>

definition self_localizer :: "string list option \<Rightarrow> error + contrast_set" where
  "self_localizer design_matrix_columns =
     (let contrast_names =
            [''encode_self-other'', ''encode_other'', ''encode_self'',
             ''instructions'', ''false_alarm'', ''correct_rejection'',
             ''recognition_hit'', ''recognition_hit-correct_rejection'',
             ''recognition_self-other'', ''recognition_self_hit'',
             ''recognition_other_hit'']
      in case design_matrix_columns of
           None \<Rightarrow> declared contrast_names
         | Some cols \<Rightarrow>
             (let con = elementary_contrasts cols in
              then_do
                (except_KeyError
                   (e_add (getitem con ''recognition_other_hit'') (getitem con ''recognition_self_hit''))
                   (if ''recognition_self_hit'' \<in> set (keys con) then getitem con ''recognition_self_hit''
                    else if ''recognition_other_hit'' \<in> set (keys con) then getitem con ''recognition_other_hit''
                    else getitem con ''recognition_other_no_response''))
                (\<lambda>recognition_hit.
              then_do
                (except_KeyError (getitem con ''correct_rejection'') (getitem con ''false_alarm''))
                (\<lambda>correct_rejection.
              then_do
                (except_KeyError (getitem con ''recognition_self_hit'') (getitem con ''recognition_self_miss''))
                (\<lambda>recognition_self_hit.
              then_do
                (except_KeyError
                   (e_add (getitem con ''recognition_self_hit'') (getitem con ''recognition_self_miss''))
                   (if ''recognition_self_miss'' \<in> set (keys con) then getitem con ''recognition_self_miss''
                    else getitem con ''recognition_self_hit''))
                (\<lambda>recognition_self.
              then_do
                (except_KeyError
                   (e_add (getitem con ''recognition_other_hit'') (getitem con ''recognition_other_miss''))
                   (if ''recognition_other_hit'' \<in> set (keys con) then getitem con ''recognition_other_hit''
                    else getitem con ''recognition_other_miss''))
                (\<lambda>recognition_other.
              then_do
                (except_KeyError (getitem con ''recognition_other_hit'') (getitem con ''recognition_other_miss''))
                (\<lambda>recognition_other_hit.
              then_do (dict_literal []
                   [(''encode_self-other'',
                       e_sub (getitem con ''encode_self'') (getitem con ''encode_other'')),
                    (''encode_other'', getitem con ''encode_other''),
                    (''encode_self'', getitem con ''encode_self''),
                    (''instructions'', getitem con ''instructions''),
                    (''false_alarm'', getitem con ''false_alarm''),
                    (''recognition_hit'', Inr recognition_hit),
                    (''recognition_self_hit'', Inr recognition_self_hit),
                    (''recognition_hit-correct_rejection'',
                       v_sub recognition_hit correct_rejection),
                    (''correct_rejection'', Inr correct_rejection),
                    (''recognition_self-other'', v_sub recognition_self recognition_other),
                    (''recognition_other_hit'', Inr recognition_other_hit)])
                (check_and_extend cols contrast_names)))))))))"

text \<open>
  Arithmetic in float64 (IEEE 754 binary64, round to nearest, ties to even). A finite
  double is the rational it denotes, and an operation returns \<open>fl\<close> of its exact
  result: the multiple of \<open>2 ^ (e - 52)\<close> nearest to \<open>x\<close>, where \<open>2 ^ e \<le> \<bar>x\<bar> < 2 ^ (e + 1)\<close>.
  Overflow, subnormal numbers and NaN do not arise for the values computed here.
\<close>

function bit_length :: "int \<Rightarrow> int" where
  "bit_length n = (if n \<le> 0 then 0 else bit_length (n div 2) + 1)"
  by pat_completeness auto
termination
  by (relation "measure nat") auto

definition pow2 :: "int \<Rightarrow> rat" where
  "pow2 k = (if 0 \<le> k then 2 ^ nat k else 1 / 2 ^ nat (- k))"

text \<open>The exponent \<open>e\<close> of a positive rational: \<open>2 ^ e \<le> x < 2 ^ (e + 1)\<close>.\<close>

definition ilog2 :: "rat \<Rightarrow> int" where
  "ilog2 x =
     (case quotient_of x of (p, q) \<Rightarrow>
        (let d = bit_length p - bit_length q
         in if pow2 d \<le> x then d else d - 1))"

definition round_half_even :: "rat \<Rightarrow> int" where
  "round_half_even q =
     (let n = \<lfloor>q\<rfloor>; r = q - of_int n
      in if r < 1 / 2 then n else if 1 / 2 < r then n + 1
         else if even n then n else n + 1)"

definition fl :: "rat \<Rightarrow> rat" where
  "fl x =
     (if x = 0 then 0
      else (let u = pow2 (ilog2 \<bar>x\<bar> - 52)
            in of_int (round_half_even (x / u)) * u))"

text \<open>
  \<^verbatim>\<open>np.linspace(start, stop, num)\<close> for \<open>num > 1\<close>, as numpy computes it:
  \<^verbatim>\<open>
  div = num - 1
  y = arange(0, num)
  delta = stop - start
  step = delta / div
  if step == 0: y = y / div; y = y * delta
  else: y = y * step
  y += start
  y[-1] = stop
  \<close>
  \<^verbatim>\<open>x.mean()\<close> adds the entries from left to right and divides by their number.
\<close>

definition linspace :: "rat \<Rightarrow> rat \<Rightarrow> nat \<Rightarrow> rat list" where
  "linspace start stop num =
     (let dv = num - 1;
          delta = fl (stop - start);
          step = fl (delta / of_nat dv);
          y = (if step = 0 then map (\<lambda>i. fl (fl (of_nat i / of_nat dv) * delta)) [0..<num]
               else map (\<lambda>i. fl (of_nat i * step)) [0..<num]);
          y = map (\<lambda>v. fl (v + start)) y
      in if 1 < num then y[num - 1 := stop] else y)"

definition mean :: "rat list \<Rightarrow> rat" where
  "mean xs = fl (foldl (\<lambda>acc x. fl (acc + x)) 0 xs / of_nat (length xs))"

text \<open>
  \<^verbatim>\<open>np.array\<close> of a list of one-dimensional arrays, and \<^verbatim>\<open>np.dot\<close> of a vector
  of coefficients with the rows of a matrix: entry \<open>j\<close> is the sum of the products of
  the coefficients with column \<open>j\<close>, each product and each partial sum rounded. In
  \<open>vstm\<close> the rows are basis vectors of distinct columns, so every product is a
  coefficient or zero and no sum has two terms other than zero: the order of the
  summation does not matter there.
\<close>

fun un_vec :: "val \<Rightarrow> error + rat list" where
  "un_vec (Vec a) = Inr a"
| "un_vec _ = Inl TypeError"

definition np_array :: "(error + val) list \<Rightarrow> error + rat list list" where
  "np_array es = then_do (sequence es) (\<lambda>vs. sequence (map un_vec vs))"

definition np_dot :: "rat list \<Rightarrow> rat list list \<Rightarrow> error + val" where
  "np_dot c rows =
     (case rows of
        [] \<Rightarrow> Inl TypeError
      | r # _ \<Rightarrow>
          if length c = length rows then
            Inr (Vec (map (\<lambda>j. foldl (\<lambda>acc (ck, row). fl (acc + fl (ck * row ! j))) 0 (zip c rows))
                       [0..<length r]))
          else Inl TypeError)"

text \<open>
  \<^verbatim>\<open>
  constant = np.ones(6)
  linear = np.linspace(-1, 1, 6)
  quadratic = linear ** 2 - (linear ** 2).mean()
  \<close>
\<close>

definition vstm :: "string list option \<Rightarrow> error + contrast_set" where
  "vstm design_matrix_columns =
     (let contrast_names = [''vstm_linear'', ''vstm_constant'', ''vstm_quadratic'']
      in case design_matrix_columns of
           None \<Rightarrow> declared contrast_names
         | Some cols \<Rightarrow>
             (let constant = replicate 6 1;
                  linear = linspace (- 1) 1 6;
                  quadratic = map (\<lambda>s. fl (s - mean (map (\<lambda>x. fl (x * x)) linear)))
                                (map (\<lambda>x. fl (x * x)) linear);
                  con = elementary_contrasts cols
              in then_do
                   (np_array (map (\<lambda>i. getitem con (''response_num_'' @ str_of_nat i)) [1..<7]))
                   (\<lambda>response.
                 then_do (dict_literal []
                      [(''vstm_constant'', np_dot constant response),
                       (''vstm_linear'', np_dot linear response),
                       (''vstm_quadratic'', np_dot quadratic response)])
                   (check_and_extend cols contrast_names))))"

definition preferences :: "string list option \<Rightarrow> string \<Rightarrow> error + contrast_set" where
  "preferences design_matrix_columns domain =
     (if domain \<notin> set [''painting'', ''house'', ''face'', ''food''] then
        Inl (ValueError ''Not a correct domain'')
      else
        (let contrast_names = [domain @ ''_linear'', domain @ ''_constant'', domain @ ''_quadratic'']
         in case design_matrix_columns of
              None \<Rightarrow> declared contrast_names
            | Some cols \<Rightarrow>
                (let con = elementary_contrasts cols
                 in then_do (dict_literal [] (map (\<lambda>key. (key, getitem con key)) contrast_names))
                      (check_and_extend cols contrast_names))))"

text \<open>
  \<^verbatim>\<open>_beta_contrasts\<close> keeps the elementary contrasts whose name starts with none of
  the nuisance names (\<^verbatim>\<open>cname.startswith(bad_names)\<close> with a tuple).
\<close>

definition startswith :: "string \<Rightarrow> string \<Rightarrow> bool" where
  "startswith s p = (take (length p) s = p)"

definition bad_names :: "string list" where
  "bad_names =
     [''constant'', ''rx'', ''ry'', ''rz'', ''tx'', ''ty'', ''tz''] @
     map (\<lambda>d. ''drift_'' @ str_of_nat d) [0..<20] @
     map (\<lambda>d. ''conf_'' @ str_of_nat d) [0..<20]"

definition beta_contrasts :: "string list \<Rightarrow> contrast_set" where
  "beta_contrasts design_matrix_columns =
     (let con = elementary_contrasts design_matrix_columns
      in filter (\<lambda>(cname, cvalue). \<not> list_ex (startswith cname) bad_names) con)"

text \<open>
  The two mental-time-travel definitions have no assertion and add the
  effects-of-interest extension only. The entry for the event response is the string
  the source writes there.
\<close>

definition mtt_we_relative :: "string list option \<Rightarrow> error + contrast_set" where
  "mtt_we_relative design_matrix_columns =
     (let contrast_list =
            [''we_average_reference'', ''we_all_space_cue'', ''we_all_time_cue'',
             ''we_all_space-time_cue'', ''we_all_time-space_cue'',
             ''we_average_event'', ''we_space_event'', ''we_time_event'',
             ''we_space-time_event'', ''we_time-space_event'',
             ''westside-eastside_event'', ''eastside-westside_event'',
             ''we_before-after_event'', ''we_after-before_event'',
             ''we_all_event_response'']
      in case design_matrix_columns of
           None \<Rightarrow> declared contrast_list
         | Some cols \<Rightarrow>
             (let con = beta_contrasts cols in
              then_do (dict_literal []
                   [(''we_average_reference'', getitem con ''we_all_reference''),
                    (''we_all_space_cue'', getitem con ''we_all_space_cue''),
                    (''we_all_time_cue'', getitem con ''we_all_time_cue''),
                    (''we_westside_event'',
                       e_add (getitem con ''we_westside_close_event'')
                             (getitem con ''we_westside_far_event'')),
                    (''we_eastside_event'',
                       e_add (getitem con ''we_eastside_close_event'')
                             (getitem con ''we_eastside_far_event'')),
                    (''we_before_event'',
                       e_add (getitem con ''we_before_close_event'')
                             (getitem con ''we_before_far_event'')),
                    (''we_after_event'',
                       e_add (getitem con ''we_after_close_event'')
                             (getitem con ''we_after_far_event'')),
                    (''we_all_event_response'', Inr (Str ''we_all_event_response''))])
                (\<lambda>contrasts.
              then_do (assign_all contrasts
                   [(''we_all_space-time_cue'',
                       \<lambda>c. e_sub (getitem c ''we_all_space_cue'') (getitem c ''we_all_time_cue'')),
                    (''we_all_time-space_cue'',
                       \<lambda>c. e_neg (getitem c ''we_all_space-time_cue'')),
                    (''we_space_event'',
                       \<lambda>c. e_add (getitem c ''we_westside_event'') (getitem c ''we_eastside_event'')),
                    (''we_time_event'',
                       \<lambda>c. e_add (getitem c ''we_before_event'') (getitem c ''we_after_event'')),
                    (''we_average_event'',
                       \<lambda>c. e_add (getitem c ''we_space_event'') (getitem c ''we_time_event'')),
                    (''we_space-time_event'',
                       \<lambda>c. e_sub (getitem c ''we_space_event'') (getitem c ''we_time_event'')),
                    (''we_time-space_event'',
                       \<lambda>c. e_neg (getitem c ''we_space-time_event'')),
                    (''westside-eastside_event'',
                       \<lambda>c. e_sub (getitem c ''we_westside_event'') (getitem c ''we_eastside_event'')),
                    (''eastside-westside_event'',
                       \<lambda>c. e_neg (getitem c ''westside-eastside_event'')),
                    (''we_before-after_event'',
                       \<lambda>c. e_sub (getitem c ''we_before_event'') (getitem c ''we_after_event'')),
                    (''we_after-before_event'',
                       \<lambda>c. e_neg (getitem c ''we_before-after_event''))])
                (\<lambda>contrasts. Inr (append_effects_interest_contrast cols contrasts)))))"

definition mtt_sn_relative :: "string list option \<Rightarrow> error + contrast_set" where
  "mtt_sn_relative design_matrix_columns =
     (let contrast_list =
            [''sn_average_reference'', ''sn_all_space_cue'', ''sn_all_time_cue'',
             ''sn_all_space-time_cue'', ''sn_all_time-space_cue'',
             ''sn_average_event'', ''sn_space_event'', ''sn_time_event'',
             ''sn_space-time_event'', ''sn_time-space_event'',
             ''northside-southside_event'', ''southside-northside_event'',
             ''sn_before-after_event'', ''sn_after-before_event'',
             ''sn_all_event_response'']
      in case design_matrix_columns of
           None \<Rightarrow> declared contrast_list
         | Some cols \<Rightarrow>
             (let con = beta_contrasts cols in
              then_do (dict_literal []
                   [(''sn_average_reference'', getitem con ''sn_all_reference''),
                    (''sn_all_space_cue'', getitem con ''sn_all_space_cue''),
                    (''sn_all_time_cue'', getitem con ''sn_all_time_cue''),
                    (''sn_southside_event'',
                       e_add (getitem con ''sn_southside_close_event'')
                             (getitem con ''sn_southside_far_event'')),
                    (''sn_northside_event'',
                       e_add (getitem con ''sn_northside_close_event'')
                             (getitem con ''sn_northside_far_event'')),
                    (''sn_before_event'',
                       e_add (getitem con ''sn_before_close_event'')
                             (getitem con ''sn_before_far_event'')),
                    (''sn_after_event'',
                       e_add (getitem con ''sn_after_close_event'')
                             (getitem con ''sn_after_far_event'')),
                    (''sn_all_event_response'', Inr (Str ''sn_all_event_response''))])
                (\<lambda>contrasts.
              then_do (assign_all contrasts
                   [(''sn_all_space-time_cue'',
                       \<lambda>c. e_sub (getitem c ''sn_all_space_cue'') (getitem c ''sn_all_time_cue'')),
                    (''sn_all_time-space_cue'',
                       \<lambda>c. e_neg (getitem c ''sn_all_space-time_cue'')),
                    (''sn_space_event'',
                       \<lambda>c. e_add (getitem c ''sn_southside_event'') (getitem c ''sn_northside_event'')),
                    (''sn_time_event'',
                       \<lambda>c. e_add (getitem c ''sn_before_event'') (getitem c ''sn_after_event'')),
                    (''sn_average_event'',
                       \<lambda>c. e_add (getitem c ''sn_space_event'') (getitem c ''sn_time_event'')),
                    (''sn_space-time_event'',
                       \<lambda>c. e_sub (getitem c ''sn_space_event'') (getitem c ''sn_time_event'')),
                    (''sn_time-space_event'',
                       \<lambda>c. e_neg (getitem c ''sn_space-time_event'')),
                    (''southside-northside_event'',
                       \<lambda>c. e_sub (getitem c ''sn_southside_event'') (getitem c ''sn_northside_event'')),
                    (''northside-southside_event'',
                       \<lambda>c. e_neg (getitem c ''southside-northside_event'')),
                    (''sn_before-after_event'',
                       \<lambda>c. e_sub (getitem c ''sn_before_event'') (getitem c ''sn_after_event'')),
                    (''sn_after-before_event'',
                       \<lambda>c. e_neg (getitem c ''sn_before-after_event''))])
                (\<lambda>contrasts. Inr (append_effects_interest_contrast cols contrasts)))))"

section \<open>The dispatcher\<close>

text \<open>
  \<^verbatim>\<open>make_contrasts\<close> is a chain of comparisons of the identifier, in the order of
  the source. The definitions embedded above are called directly; every other definition
  of the module is reached through \<open>defs\<close>, which maps the name of the source
  function to what it computes, so that what is proved of the dispatcher holds whatever
  those definitions do. \<^verbatim>\<open>paradigm_id[:10]\<close> is \<^term>\<open>take 10 paradigm_id\<close>,
  \<^verbatim>\<open>paradigm_id[11:]\<close> is \<^term>\<open>drop 11 paradigm_id\<close>, and \<^verbatim>\<open>domain[-1]\<close>
  raises \<^verbatim>\<open>IndexError\<close> on the empty string.
\<close>

definition make_contrasts ::
  "(string \<Rightarrow> string list option \<Rightarrow> error + contrast_set) \<Rightarrow> string \<Rightarrow> string list option \<Rightarrow>
     error + contrast_set" where
  "make_contrasts defs paradigm_id design_matrix_columns =
     (if paradigm_id = ''archi_standard'' then
        defs ''archi_standard'' design_matrix_columns
      else if paradigm_id = ''archi_social'' then
        defs ''archi_social'' design_matrix_columns
      else if paradigm_id = ''archi_spatial'' then
        defs ''archi_spatial'' design_matrix_columns
      else if paradigm_id = ''archi_emotional'' then
        defs ''archi_emotional'' design_matrix_columns
      else if paradigm_id = ''hcp_emotion'' then
        defs ''hcp_emotion'' design_matrix_columns
      else if paradigm_id = ''hcp_gambling'' then
        defs ''hcp_gambling'' design_matrix_columns
      else if paradigm_id = ''hcp_language'' then
        defs ''hcp_language'' design_matrix_columns
      else if paradigm_id = ''hcp_motor'' then
        defs ''hcp_motor'' design_matrix_columns
      else if paradigm_id = ''hcp_wm'' then
        defs ''hcp_wm'' design_matrix_columns
      else if paradigm_id = ''hcp_relational'' then
        defs ''hcp_relational'' design_matrix_columns
      else if paradigm_id = ''hcp_social'' then
        defs ''hcp_social'' design_matrix_columns
      else if paradigm_id = ''language'' then
        defs ''rsvp_language'' design_matrix_columns
      else if paradigm_id = ''colour'' then
        defs ''colour'' design_matrix_columns
      else if paradigm_id \<in> set [''wedge'', ''wedge_anti'', ''wedge_clock''] then
        wedge design_matrix_columns
      else if paradigm_id \<in> set [''ring'', ''cont_ring'', ''exp_ring''] then
        ring design_matrix_columns
      else if take 10 paradigm_id = ''preference'' then
        (let domain = drop 11 paradigm_id
         in if domain = [] then Inl IndexError
            else preferences design_matrix_columns
                   (if last domain = CHR ''s'' then butlast domain else domain))
      else if paradigm_id = ''MTTWE'' then
        mtt_we_relative design_matrix_columns
      else if paradigm_id = ''MTTNS'' then
        mtt_sn_relative design_matrix_columns
      else if paradigm_id = ''emotional_pain'' then
        defs ''emotional_pain'' design_matrix_columns
      else if paradigm_id = ''pain_movie'' then
        defs ''pain_movie'' design_matrix_columns
      else if paradigm_id = ''theory_of_mind'' then
        defs ''theory_of_mind'' design_matrix_columns
      else if paradigm_id = ''VSTM'' then
        vstm design_matrix_columns
      else if paradigm_id = ''enumeration'' then
        defs ''enumeration'' design_matrix_columns
      else if paradigm_id = ''clips_trn'' then
        Inr []
      else if paradigm_id = ''self'' then
        self_localizer design_matrix_columns
      else if paradigm_id = ''lyon_moto'' then
        defs ''lyon_moto'' design_matrix_columns
      else if paradigm_id = ''lyon_mcse'' then
        lyon_mcse design_matrix_columns
      else if paradigm_id = ''lyon_mveb'' then
        defs ''lyon_mveb'' design_matrix_columns
      else if paradigm_id = ''lyon_mvis'' then
        defs ''lyon_mvis'' design_matrix_columns
      else if paradigm_id = ''lyon_lec1'' then
        defs ''lyon_lec1'' design_matrix_columns
      else if paradigm_id = ''lyon_lec2'' then
        defs ''lyon_lec2'' design_matrix_columns
      else if paradigm_id = ''lyon_audi'' then
        defs ''lyon_audi'' design_matrix_columns
      else if paradigm_id = ''lyon_visu'' then
        defs ''lyon_visu'' design_matrix_columns
      else if paradigm_id = ''audio'' then
        defs ''audio'' design_matrix_columns
      else if paradigm_id = ''bang'' then
        defs ''bang'' design_matrix_columns
      else if paradigm_id = ''selective_stop_signal'' then
        defs ''selective_stop_signal'' design_matrix_columns
      else if paradigm_id = ''stop_signal'' then
        defs ''stop_signal'' design_matrix_columns
      else if paradigm_id = ''stroop'' then
        stroop design_matrix_columns
      else if paradigm_id = ''discount'' then
        defs ''discount'' design_matrix_columns
      else if paradigm_id = ''attention'' then
        defs ''attention'' design_matrix_columns
      else if paradigm_id = ''ward_and_aliport'' then
        defs ''towertask'' design_matrix_columns
      else if paradigm_id = ''two_by_two'' then
        two_by_two design_matrix_columns
      else if paradigm_id = ''columbia_cards'' then
        defs ''columbia_cards'' design_matrix_columns
      else if paradigm_id = ''dot_patterns'' then
        defs ''dot_patterns'' design_matrix_columns
      else if paradigm_id = ''biological_motion1'' then
        defs ''biological_motion1'' design_matrix_columns
      else if paradigm_id = ''biological_motion2'' then
        defs ''biological_motion2'' design_matrix_columns
      else if paradigm_id = ''math_language'' then
        defs ''math_language'' design_matrix_columns
      else if paradigm_id = ''spatial_navigation'' then
        defs ''spatial_navigation'' design_matrix_columns
      else Inl (ValueError (paradigm_id @ '' Unknown paradigm'')))"

text \<open>
  The identifiers that a branch of the chain compares the argument with, in the order
  of the chain.
\<close>

definition explicit_identifiers :: "string list" where
  "explicit_identifiers =
     [''archi_standard'', ''archi_social'', ''archi_spatial'', ''archi_emotional'',
      ''hcp_emotion'', ''hcp_gambling'', ''hcp_language'', ''hcp_motor'', ''hcp_wm'',
      ''hcp_relational'', ''hcp_social'', ''language'', ''colour'',
      ''wedge'', ''wedge_anti'', ''wedge_clock'', ''ring'', ''cont_ring'', ''exp_ring'',
      ''MTTWE'', ''MTTNS'', ''emotional_pain'', ''pain_movie'', ''theory_of_mind'',
      ''VSTM'', ''enumeration'', ''clips_trn'', ''self'',
      ''lyon_moto'', ''lyon_mcse'', ''lyon_mveb'', ''lyon_mvis'', ''lyon_lec1'',
      ''lyon_lec2'', ''lyon_audi'', ''lyon_visu'', ''audio'', ''bang'',
      ''selective_stop_signal'', ''stop_signal'', ''stroop'', ''discount'', ''attention'',
      ''ward_and_aliport'', ''two_by_two'', ''columbia_cards'', ''dot_patterns'',
      ''biological_motion1'', ''biological_motion2'', ''math_language'',
      ''spatial_navigation'']"

text \<open>
  The identifiers of the specification: the ones above and \<open>preference_<domain>\<close> for
  the four domains. Every other string is an unknown identifier.
\<close>

definition spec_identifiers :: "string list" where
  "spec_identifiers =
     explicit_identifiers @
     map (\<lambda>domain. ''preference_'' @ domain) [''painting'', ''house'', ''face'', ''food'']"

section \<open>Group-level analysis: the floor of the statistical maps\<close>

text \<open>
  In \<^verbatim>\<open>data_paper_scripts/global_stat.py\<close>, \<^verbatim>\<open>anova\<close> ends with
  \<^verbatim>\<open>
  subject_map = math_img('img * (img > -8.2095)', img=subject_map)
  contrast_map = math_img('img * (img > -8.2095)', img=contrast_map)
  acq_map =  math_img('img * (img > -8.2095)', img=acq_map)
  return design_matrix, subject_map, contrast_map, acq_map
  \<close>
  An image is the list of its voxel values. The formula is evaluated voxel by voxel; the
  comparison gives 1 or 0. The three maps come from the external model fit and are the
  input here.
\<close>

definition math_img_formula :: "rat list \<Rightarrow> rat list" where
  "math_img_formula img = map (\<lambda>v. v * (if v > - (82095 / 10000) then 1 else 0)) img"

definition anova_maps :: "rat list \<times> rat list \<times> rat list \<Rightarrow> rat list \<times> rat list \<times> rat list" where
  "anova_maps maps =
     (case maps of (subject_map, contrast_map, acq_map) \<Rightarrow>
        (math_img_formula subject_map, math_img_formula contrast_map, math_img_formula acq_map))"

text \<open>
  The specification's words, a floor at the threshold: a value below the threshold is
  replaced by the threshold.
\<close>

definition spec_floor_at :: "rat \<Rightarrow> rat list \<Rightarrow> rat list" where
  "spec_floor_at t img = map (\<lambda>v. max v t) img"

text \<open>
  A vector \<open>w\<close> of \<open>n\<close> entries that has the coefficient \<open>c ! k\<close> at the position
  \<open>is ! k\<close> and zero at every other position.
\<close>

definition placed_at :: "nat list \<Rightarrow> nat \<Rightarrow> rat list \<Rightarrow> rat list \<Rightarrow> bool" where
  "placed_at is n c w =
     (length w = n \<and> list_all (\<lambda>k. w ! (is ! k) = c ! k) [0..<length is] \<and>
      list_all (\<lambda>j. j \<in> set is \<or> w ! j = 0) [0..<n])"

text \<open>
  The linear coefficients in the specification's words: the doubles that the decimal
  numerals \<open>-1, -0.6, -0.2, 0.2, 0.6, 1\<close> denote.
\<close>

definition spec_linear :: "rat list" where
  "spec_linear = map fl [- 1, - (3 / 5), - (1 / 5), 1 / 5, 3 / 5, 1]"

text \<open>
  The reading of the specification's words for the effects-of-interest extension: a
  column is left out when it is a nuisance column or when its name ends in the
  derivative marker, whatever its length (Python's \<^verbatim>\<open>endswith\<close>).
\<close>

definition ends_with_derivative :: "string \<Rightarrow> bool" where
  "ends_with_derivative s = (last11 s = ''_derivative'')"

definition spec_effects_interest_rows :: "string list \<Rightarrow> rat list list" where
  "spec_effects_interest_rows cols =
     map (eye_row (length cols))
       (filter (\<lambda>i. cols ! i \<notin> set nuisance \<and> \<not> ends_with_derivative (cols ! i)) [0..<length cols])"

definition spec_append_effects_interest :: "string list \<Rightarrow> contrast_set \<Rightarrow> contrast_set" where
  "spec_append_effects_interest cols contrast =
     (if spec_effects_interest_rows cols = [] then contrast
      else AList.update ''effects_interest'' (Mat (spec_effects_interest_rows cols)) contrast)"

section \<open>Properties of the extensions\<close>

lemma effects_interest_fold:
  "fold (effects_interest_step cols n) is acc =
     acc @ map (eye_row n)
       (filter (\<lambda>i. cols ! i \<notin> set nuisance \<and>
                  \<not> (length (cols ! i) > 11 \<and> last11 (cols ! i) = ''_derivative'')) is)"
  by (induction "is" arbitrary: acc) (auto simp: effects_interest_step_def)

lemma derivative_fold:
  "fold (derivative_step cols n) is acc =
     acc @ map (eye_row n)
       (filter (\<lambda>i. length (cols ! i) > 11 \<and> last11 (cols ! i) = ''_derivative'') is)"
  by (induction "is" arbitrary: acc) (auto simp: derivative_step_def)

lemma effects_interest_rows_filter:
  "effects_interest_rows cols =
     map (eye_row (length cols))
       (filter (\<lambda>i. cols ! i \<notin> set nuisance \<and>
                  \<not> (length (cols ! i) > 11 \<and> last11 (cols ! i) = ''_derivative''))
          [0..<length cols])"
  by (simp add: effects_interest_rows_def effects_interest_fold Let_def)

lemma derivative_rows_filter:
  "derivative_rows cols =
     map (eye_row (length cols))
       (filter (\<lambda>i. length (cols ! i) > 11 \<and> last11 (cols ! i) = ''_derivative'')
          [0..<length cols])"
  by (simp add: derivative_rows_def derivative_fold Let_def)

lemma eye_row_inj: "i < n \<Longrightarrow> j < n \<Longrightarrow> eye_row n i = eye_row n j \<Longrightarrow> i = j"
proof -
  assume i: "i < n" and j: "j < n" and eq: "eye_row n i = eye_row n j"
  have "eye_row n i ! i = eye_row n j ! i" using eq by simp
  then show "i = j" using i j by (simp add: eye_row_def split: if_splits)
qed

lemma nuisance_explicit:
  "nuisance =
     [''tx'', ''ty'', ''tz'', ''rx'', ''ry'', ''rz'', ''constant'',
      ''drift_0'', ''drift_1'', ''drift_2'', ''drift_3'', ''drift_4'', ''drift_5'', ''drift_6'',
      ''drift_7'', ''drift_8'', ''drift_9'', ''drift_10'', ''drift_11'', ''drift_12'',
      ''drift_13'', ''drift_14'', ''drift_15'', ''drift_16'', ''drift_17'', ''drift_18'',
      ''drift_19'',
      ''conf_0'', ''conf_1'', ''conf_2'', ''conf_3'', ''conf_4'', ''conf_5'', ''conf_6'',
      ''conf_7'', ''conf_8'', ''conf_9'', ''conf_10'', ''conf_11'', ''conf_12'',
      ''conf_13'', ''conf_14'', ''conf_15'', ''conf_16'', ''conf_17'', ''conf_18'',
      ''conf_19'']"
  by code_simp

lemma update_absorb:
  "k \<noteq> k' \<Longrightarrow> AList.update k v (AList.update k' v' (AList.update k v al)) =
     AList.update k' v' (AList.update k v al)"
  by (rule update_triv) (simp add: update_conv')

text \<open>
  Claim C3, as amended. The effects-of-interest extension stores under
  \<open>effects_interest\<close> the matrix whose rows are, in column order, the basis vectors of
  the columns that are not in the nuisance list (\<open>tx, ty, tz, rx, ry, rz, constant\<close>,
  \<open>drift_k\<close> and \<open>conf_k\<close> for \<open>k < 20\<close>, see \<open>nuisance_explicit\<close>) and whose name
  is not a name of more than eleven characters ending in \<open>_derivative\<close>; when there is
  no such column the contrast set is returned as it is. For the columns
  \<open>a, b, constant, drift_0\<close> the rows are the basis vectors of \<open>a\<close> and \<open>b\<close>.
\<close>

theorem effects_interest_extension:
  "append_effects_interest_contrast cols contrast =
     (let rows = map (eye_row (length cols))
            (filter (\<lambda>i. cols ! i \<notin> set nuisance \<and>
                       \<not> (11 < length (cols ! i) \<and> last11 (cols ! i) = ''_derivative''))
               [0..<length cols])
      in if rows = [] then contrast
         else AList.update ''effects_interest'' (Mat rows) contrast) \<and>
   append_effects_interest_contrast [''a'', ''b'', ''constant'', ''drift_0''] contrast =
     AList.update ''effects_interest'' (Mat [[1, 0, 0, 0], [0, 1, 0, 0]]) contrast"
proof -
  have "effects_interest_rows [''a'', ''b'', ''constant'', ''drift_0''] =
          [[1, 0, 0, 0], [0, 1, 0, 0]]"
    by code_simp
  then show ?thesis
    by (simp add: append_effects_interest_contrast_def Let_def effects_interest_rows_filter)
qed

text \<open>
  Claim C3 as stated fails for a column named exactly \<open>_derivative\<close>: the name ends in
  the derivative marker, so the stated rule leaves the empty contrast set unchanged,
  while the code adds the basis vector of that column.
\<close>

theorem effects_interest_extension_counterexample:
  "append_effects_interest_contrast [''_derivative''] [] = [(''effects_interest'', Mat [[1]])] \<and>
   spec_append_effects_interest [''_derivative''] [] = []"
  by code_simp

text \<open>
  Claim C4. Each of the two extensions applied twice gives what it gives applied once,
  and so do the two together, each twice in a row or the pair repeated in the order of
  the paradigm definitions (derivatives first, then effects of interest): a second
  application stores the same value under the same key.
\<close>

theorem extensions_idempotent:
  "append_effects_interest_contrast cols (append_effects_interest_contrast cols c) =
     append_effects_interest_contrast cols c \<and>
   append_derivative_contrast cols (append_derivative_contrast cols c) =
     append_derivative_contrast cols c \<and>
   append_effects_interest_contrast cols (append_effects_interest_contrast cols
       (append_derivative_contrast cols (append_derivative_contrast cols c))) =
     append_effects_interest_contrast cols (append_derivative_contrast cols c) \<and>
   append_effects_interest_contrast cols (append_derivative_contrast cols
       (append_effects_interest_contrast cols (append_derivative_contrast cols c))) =
     append_effects_interest_contrast cols (append_derivative_contrast cols c)"
  by (simp add: append_effects_interest_contrast_def append_derivative_contrast_def Let_def
       update_absorb)

text \<open>
  Claim C10. Both extensions look at the last eleven characters of a name only when the
  name has more than eleven characters. So the basis vector of a column named exactly
  \<open>_derivative\<close> is never a row of the matrix built for \<open>derivatives\<close>, it is a row
  of the matrix built for \<open>effects_interest\<close>, and that matrix is stored.
\<close>

theorem bare_derivative_column:
  assumes "i < length cols" and "cols ! i = ''_derivative''"
  shows "eye_row (length cols) i \<notin> set (derivative_rows cols) \<and>
         eye_row (length cols) i \<in> set (effects_interest_rows cols) \<and>
         map_of (append_effects_interest_contrast cols contrast) ''effects_interest'' =
           Some (Mat (effects_interest_rows cols)) \<and>
         map_of (append_derivative_contrast cols contrast) ''derivatives'' =
           (if derivative_rows cols = [] then map_of contrast ''derivatives''
            else Some (Mat (derivative_rows cols)))"
proof -
  let ?n = "length cols"
  have notnuis: "''_derivative'' \<notin> set nuisance"
    by code_simp
  have not_d: "eye_row ?n i \<notin> set (derivative_rows cols)"
  proof
    assume "eye_row ?n i \<in> set (derivative_rows cols)"
    then obtain j where j: "j < ?n" "11 < length (cols ! j)" "eye_row ?n j = eye_row ?n i"
      by (auto simp: derivative_rows_filter)
    then have "j = i" using assms(1) eye_row_inj by blast
    with j(2) assms(2) show False by simp
  qed
  have in_e: "eye_row ?n i \<in> set (effects_interest_rows cols)"
    using assms notnuis by (auto simp: effects_interest_rows_filter)
  then have ne: "effects_interest_rows cols \<noteq> []" by auto
  show ?thesis
    using not_d in_e ne
    by (simp add: append_effects_interest_contrast_def append_derivative_contrast_def
        Let_def update_conv')
qed

theorem bare_derivative_column_witness:
  "1 < length [''a'', ''_derivative''] \<and> [''a'', ''_derivative''] ! 1 = ''_derivative'' \<and>
   eye_row (length [''a'', ''_derivative'']) 1 \<notin> set (derivative_rows [''a'', ''_derivative'']) \<and>
   eye_row (length [''a'', ''_derivative'']) 1 \<in> set (effects_interest_rows [''a'', ''_derivative''])"
proof -
  have h1: "1 < length [''a'', ''_derivative'']" by simp
  have h2: "[''a'', ''_derivative''] ! 1 = ''_derivative''" by simp
  show ?thesis
    using h1 h2 bare_derivative_column [OF h1 h2, of "[]"] by blast
qed

lemma append_effects_interest_map_of:
  "k \<noteq> ''effects_interest'' \<Longrightarrow>
     map_of (append_effects_interest_contrast cols c) k = map_of c k"
  by (simp add: append_effects_interest_contrast_def Let_def update_conv')

lemma append_derivative_map_of:
  "k \<noteq> ''derivatives'' \<Longrightarrow>
     map_of (append_derivative_contrast cols c) k = map_of c k"
  by (simp add: append_derivative_contrast_def Let_def update_conv')

lemma getitem_extended:
  "k \<noteq> ''effects_interest'' \<Longrightarrow> k \<noteq> ''derivatives'' \<Longrightarrow>
     getitem (append_effects_interest_contrast cols (append_derivative_contrast cols c)) k =
       getitem c k"
  by (simp add: getitem_def append_effects_interest_map_of append_derivative_map_of)

section \<open>Lookups in the elementary contrasts\<close>

lemma elementary_fold_keys:
  "fst ` set (fold (\<lambda>i con. AList.update (cols ! i) (Vec (eye_row n i)) con) is acc) =
     fst ` set acc \<union> (\<lambda>i. cols ! i) ` set is"
  by (induction "is" arbitrary: acc) (auto simp: dom_update)

lemma elementary_keys: "set (keys (elementary_contrasts cols)) = set cols"
proof -
  have "(\<lambda>i. cols ! i) ` set [0..<length cols] = set cols"
    using nth_image [of "length cols" cols] by simp
  then show ?thesis
    by (simp add: elementary_contrasts_def Let_def keys_def elementary_fold_keys)
qed

lemma elementary_fold_values:
  "map_of (fold (\<lambda>i con. AList.update (cols ! i) (Vec (eye_row n i)) con) is acc) k = Some v \<Longrightarrow>
     map_of acc k = Some v \<or> (\<exists>i \<in> set is. cols ! i = k \<and> v = Vec (eye_row n i))"
proof (induction "is" arbitrary: acc)
  case Nil
  then show ?case by simp
next
  case (Cons i "is")
  from Cons.IH [OF Cons.prems [simplified]] show ?case
    by (auto simp: update_conv' split: if_splits)
qed

lemma elementary_values:
  assumes "map_of (elementary_contrasts cols) k = Some v"
  shows "\<exists>i < length cols. cols ! i = k \<and> v = Vec (eye_row (length cols) i)"
  using elementary_fold_values [of cols "length cols" "[0..<length cols]" "[]" k v] assms
  by (auto simp: elementary_contrasts_def Let_def)

lemma getitem_elementary_absent:
  "k \<notin> set cols \<Longrightarrow> getitem (elementary_contrasts cols) k = Inl (KeyError k)"
proof -
  assume "k \<notin> set cols"
  then have "k \<notin> fst ` set (elementary_contrasts cols)"
    using elementary_keys [of cols] by (simp add: keys_def)
  then have "map_of (elementary_contrasts cols) k = None"
    by (simp add: map_of_eq_None_iff)
  then show ?thesis by (simp add: getitem_def)
qed

lemma getitem_elementary_present:
  assumes "k \<in> set cols"
  shows "\<exists>i < length cols. cols ! i = k \<and>
           getitem (elementary_contrasts cols) k = Inr (Vec (eye_row (length cols) i))"
proof -
  from assms have "k \<in> fst ` set (elementary_contrasts cols)"
    using elementary_keys [of cols] by (simp add: keys_def)
  then obtain v where v: "map_of (elementary_contrasts cols) k = Some v"
    by (metis map_of_eq_None_iff not_Some_eq)
  from elementary_values [OF v] v show ?thesis
    by (auto simp: getitem_def)
qed

lemma getitem_elementary_distinct:
  assumes "distinct cols" and "i < length cols"
  shows "getitem (elementary_contrasts cols) (cols ! i) = Inr (Vec (eye_row (length cols) i))"
proof -
  from assms(2) have "cols ! i \<in> set cols" by simp
  from getitem_elementary_present [OF this] obtain j where
    j: "j < length cols" "cols ! j = cols ! i"
       "getitem (elementary_contrasts cols) (cols ! i) = Inr (Vec (eye_row (length cols) j))"
    by blast
  from j(1,2) assms have "j = i" by (simp add: nth_eq_iff_index_eq)
  with j(3) show ?thesis by simp
qed

lemma getitem_ok_or_KeyError:
  "(\<exists>v. getitem c k = Inr v) \<or> getitem c k = Inl (KeyError k)"
  by (cases "map_of c k") (simp_all add: getitem_def)

section \<open>Dictionaries, assignments and the assertion\<close>

lemma then_do_Inr: "then_do m f = Inr d \<longleftrightarrow> (\<exists>x. m = Inr x \<and> f x = Inr d)"
  by (cases m) (simp_all add: then_do_def)

lemma dict_literal_Cons_Inr:
  "dict_literal acc ((k, e) # rest) = Inr d \<longleftrightarrow>
     (\<exists>v. e = Inr v \<and> dict_literal (AList.update k v acc) rest = Inr d)"
  by (cases e) auto

lemma dict_literal_keys:
  "dict_literal acc kvs = Inr d \<Longrightarrow> set (keys d) = set (keys acc) \<union> fst ` set kvs"
proof (induction kvs arbitrary: acc)
  case Nil
  then show ?case by simp
next
  case (Cons kv kvs)
  obtain k e where kv: "kv = (k, e)" by (cases kv)
  from Cons.prems kv obtain v where e: "e = Inr v"
    and rest: "dict_literal (AList.update k v acc) kvs = Inr d"
    by (cases e) auto
  have "set (keys (AList.update k v acc)) = insert k (set (keys acc))"
    using dom_update [of k v acc] by (simp add: keys_def)
  with Cons.IH [OF rest] kv show ?case by auto
qed

lemma dict_literal_snoc:
  "dict_literal acc (pre @ [(k, Inr v)]) = Inr d \<Longrightarrow> map_of d k = Some v"
  by (induction pre arbitrary: acc) (auto simp: update_conv' split: sum.splits)

lemma dict_literal_last:
  assumes "dict_literal acc kvs = Inr d" and "kvs \<noteq> []" and "last kvs = (k, Inr v)"
  shows "map_of d k = Some v"
proof -
  have "kvs = butlast kvs @ [(k, Inr v)]"
    using assms(2,3) append_butlast_last_id by fastforce
  with assms(1) dict_literal_snoc show ?thesis by metis
qed

lemma assign_all_map_of:
  "assign_all c kes = Inr d \<Longrightarrow> k \<notin> fst ` set kes \<Longrightarrow> map_of d k = map_of c k"
proof (induction kes arbitrary: c)
  case Nil
  then show ?case by simp
next
  case (Cons ke kes)
  obtain k' e where ke: "ke = (k', e)" by (cases ke)
  from Cons.prems(1) ke obtain v where "e c = Inr v"
    and rest: "assign_all (AList.update k' v c) kes = Inr d"
    by (cases "e c") auto
  from Cons.prems(2) ke have "k \<noteq> k'" and "k \<notin> fst ` set kes" by auto
  with Cons.IH [OF rest] show ?case by (simp add: update_conv')
qed

lemma check_and_extend_keys:
  "set (keys contrasts) \<noteq> set contrast_names \<Longrightarrow>
     check_and_extend cols contrast_names contrasts = Inl AssertionError"
proof -
  assume ne: "set (keys contrasts) \<noteq> set contrast_names"
  have "sort (keys contrasts) \<noteq> sort contrast_names"
  proof
    assume "sort (keys contrasts) = sort contrast_names"
    then have "set (sort (keys contrasts)) = set (sort contrast_names)" by simp
    with ne show False by simp
  qed
  then show ?thesis by (simp add: check_and_extend_def)
qed

lemma check_and_extend_Inr:
  "check_and_extend cols names c = Inr d \<Longrightarrow>
     d = append_effects_interest_contrast cols (append_derivative_contrast cols c)"
  by (simp add: check_and_extend_def split: if_splits)

text \<open>
  What the assertion gives a definition that returns: apart from the two keys of the
  extensions, the names of the result are the declared ones.
\<close>

lemma check_and_extend_names:
  assumes "check_and_extend cols contrast_names contrasts = Inr d"
  shows "set (keys d) - {''effects_interest'', ''derivatives''} =
         set contrast_names - {''effects_interest'', ''derivatives''}"
proof -
  from assms have srt: "sort (keys contrasts) = sort contrast_names"
    and d: "d = append_effects_interest_contrast cols (append_derivative_contrast cols contrasts)"
    by (simp_all add: check_and_extend_def split: if_splits)
  from srt have "set (sort (keys contrasts)) = set (sort contrast_names)" by simp
  then have k: "set (keys contrasts) = set contrast_names" by simp
  have upd: "set (keys (AList.update x v al)) = insert x (set (keys al))" for x v and al :: contrast_set
    using dom_update [of x v al] by (simp add: keys_def)
  show ?thesis
    unfolding d append_effects_interest_contrast_def append_derivative_contrast_def Let_def
    using k by (auto simp: upd)
qed

section \<open>Declared names against the names that are built\<close>

lemma two_by_two_never_returns: "\<exists>e. two_by_two (Some cols) = Inl e"
proof -
  let ?names = "[''task_stay_cue_stay'', ''task_switch_cue_switch'',
             ''task_switch_cue_stay'', ''task_stay_cue_switch'',
             ''task_switch-stay'', ''task_repetition'']"
  define con where "con = elementary_contrasts cols"
  define lit where "lit = dict_literal []
                   [(''task_stay_cue_stay'', getitem con ''taskstay_cuestay''),
                    (''task_switch_cue_switch'', getitem con ''taskswitch_cueswitch''),
                    (''task_switch_cue_stay'', getitem con ''taskswitch_cuestay''),
                    (''task_stay_cue_switch'', getitem con ''taskstay_cueswitch''),
                    (''task_switch-stay'',
                       e_sub (e_add (getitem con ''taskswitch_cueswitch'')
                                    (getitem con ''taskswitch_cuestay''))
                             (e_scale 2 (getitem con ''taskstay_cueswitch''))),
                    (''cue_switch'',
                       e_sub (getitem con ''taskstay_cueswitch'')
                             (getitem con ''taskstay_cuestay''))]"
  have eq: "two_by_two (Some cols) = then_do lit (check_and_extend cols ?names)"
    by (simp add: two_by_two_def Let_def con_def lit_def)
  show ?thesis
  proof (cases lit)
    case (Inl e)
    then show ?thesis by (simp add: eq then_do_def)
  next
    case (Inr d)
    then have "''cue_switch'' \<in> set (keys d)"
      using dict_literal_keys [of "[]" _ d] unfolding lit_def by fastforce
    moreover have "''cue_switch'' \<notin> set ?names" by simp
    ultimately have "set (keys d) \<noteq> set ?names" by blast
    then show ?thesis
      using Inr by (simp add: eq then_do_def check_and_extend_keys)
  qed
qed

lemma stroop_never_returns: "\<exists>e. stroop (Some cols) = Inl e"
proof -
  let ?names = "[''congruent'', ''incongruent'', ''congruent-incongruent'', ''incongruent-congruent'']"
  define con where "con = elementary_contrasts cols"
  define lit where "lit = dict_literal []
                   [(''congruent'', getitem con ''congruent''),
                    (''incongruent'', getitem con ''incongruent''),
                    (''incongruent-congruent'',
                       e_sub (getitem con ''incongruent'') (getitem con ''congruent''))]"
  have eq: "stroop (Some cols) = then_do lit (check_and_extend cols ?names)"
    by (simp add: stroop_def Let_def con_def lit_def)
  show ?thesis
  proof (cases lit)
    case (Inl e)
    then show ?thesis by (simp add: eq then_do_def)
  next
    case (Inr d)
    then have "set (keys d) = {''congruent'', ''incongruent'', ''incongruent-congruent''}"
      using dict_literal_keys [of "[]" _ d] unfolding lit_def by (fastforce simp: keys_def)
    then have "''congruent-incongruent'' \<notin> set (keys d)" by simp
    moreover have "''congruent-incongruent'' \<in> set ?names" by simp
    ultimately have "set (keys d) \<noteq> set ?names" by blast
    then show ?thesis
      using Inr by (simp add: eq then_do_def check_and_extend_keys)
  qed
qed

lemma lyon_mcse_never_returns: "\<exists>e. lyon_mcse (Some cols) = Inl e"
proof -
  let ?names = "[''high_salience_left'', ''high_salience_right'',
             ''low_salience_left'', ''low_salience_right'',
             ''low-high_salience'', ''salience_left-right'',
             ''low+high_salience'']"
  obtain lit where eq: "lyon_mcse (Some cols) = then_do (dict_literal [] lit) (check_and_extend cols ?names)"
    and key: "''high-low_salience'' \<in> fst ` set lit"
    by (simp add: lyon_mcse_def Let_def del: dict_literal.simps)
  show ?thesis
  proof (cases "dict_literal [] lit")
    case (Inl e)
    then show ?thesis by (simp add: eq then_do_def)
  next
    case (Inr d)
    then have "''high-low_salience'' \<in> set (keys d)"
      using dict_literal_keys [of "[]" lit d] key by simp
    moreover have "''high-low_salience'' \<notin> set ?names" by simp
    ultimately have "set (keys d) \<noteq> set ?names" by blast
    then show ?thesis
      using Inr by (simp add: eq then_do_def check_and_extend_keys)
  qed
qed

text \<open>
  Claim C1 does not hold of the code. The dictionary that \<open>two_by_two\<close> builds has the
  key \<open>cue_switch\<close> where its declared list has \<open>task_repetition\<close>, the one that
  \<open>stroop\<close> builds lacks the declared \<open>congruent-incongruent\<close>, and the one that
  \<open>lyon_mcse\<close> builds has two undeclared keys. The definitions' own assertion
  therefore fails: on no column sequence does any of the three return a contrast set,
  and on the columns they read they raise \<open>AssertionError\<close>. The definition
  \<open>mtt_we_relative\<close>, which has no assertion, returns the undeclared name
  \<open>we_westside_event\<close>.
\<close>

theorem declared_names_assertion:
  "(\<exists>e. two_by_two (Some cols) = Inl e) \<and> (\<exists>e. stroop (Some cols) = Inl e) \<and>
   (\<exists>e. lyon_mcse (Some cols) = Inl e) \<and>
   two_by_two (Some [''taskstay_cuestay'', ''taskswitch_cueswitch'',
                     ''taskswitch_cuestay'', ''taskstay_cueswitch'']) = Inl AssertionError \<and>
   stroop (Some [''congruent'', ''incongruent'']) = Inl AssertionError \<and>
   lyon_mcse (Some [''hi_salience_left'', ''hi_salience_right'',
                    ''low_salience_left'', ''low_salience_right'']) = Inl AssertionError \<and>
   \<not> isl (mtt_we_relative (Some
       [''we_all_reference'', ''we_all_space_cue'', ''we_all_time_cue'',
        ''we_westside_close_event'', ''we_westside_far_event'',
        ''we_eastside_close_event'', ''we_eastside_far_event'',
        ''we_before_close_event'', ''we_before_far_event'',
        ''we_after_close_event'', ''we_after_far_event''])) \<and>
   ''we_westside_event'' \<in> set (keys (projr (mtt_we_relative (Some
       [''we_all_reference'', ''we_all_space_cue'', ''we_all_time_cue'',
        ''we_westside_close_event'', ''we_westside_far_event'',
        ''we_eastside_close_event'', ''we_eastside_far_event'',
        ''we_before_close_event'', ''we_before_far_event'',
        ''we_after_close_event'', ''we_after_far_event''])))) \<and>
   ''we_westside_event'' \<notin> set (keys (projr (mtt_we_relative None)))"
proof -
  have a: "two_by_two (Some [''taskstay_cuestay'', ''taskswitch_cueswitch'',
                     ''taskswitch_cuestay'', ''taskstay_cueswitch'']) = Inl AssertionError"
    by code_simp
  have b: "stroop (Some [''congruent'', ''incongruent'']) = Inl AssertionError"
    by code_simp
  have c: "lyon_mcse (Some [''hi_salience_left'', ''hi_salience_right'',
                    ''low_salience_left'', ''low_salience_right'']) = Inl AssertionError"
    by code_simp
  have d: "\<not> isl (mtt_we_relative (Some
       [''we_all_reference'', ''we_all_space_cue'', ''we_all_time_cue'',
        ''we_westside_close_event'', ''we_westside_far_event'',
        ''we_eastside_close_event'', ''we_eastside_far_event'',
        ''we_before_close_event'', ''we_before_far_event'',
        ''we_after_close_event'', ''we_after_far_event'']))"
    by code_simp
  have e: "''we_westside_event'' \<in> set (keys (projr (mtt_we_relative (Some
       [''we_all_reference'', ''we_all_space_cue'', ''we_all_time_cue'',
        ''we_westside_close_event'', ''we_westside_far_event'',
        ''we_eastside_close_event'', ''we_eastside_far_event'',
        ''we_before_close_event'', ''we_before_far_event'',
        ''we_after_close_event'', ''we_after_far_event'']))))"
    by code_simp
  have f: "''we_westside_event'' \<notin> set (keys (projr (mtt_we_relative None)))"
    by code_simp
  show ?thesis
    using a b c d e f two_by_two_never_returns stroop_never_returns lyon_mcse_never_returns
    by blast
qed

section \<open>The values of the mental-time-travel contrasts\<close>

lemma mtt_shape:
  assumes "then_do (dict_literal [] kvs)
             (\<lambda>c. then_do (assign_all c kes)
                (\<lambda>c. Inr (append_effects_interest_contrast cols c))) = Inr d"
    and "kvs \<noteq> []" and "last kvs = (k, Inr v)"
    and "k \<notin> fst ` set kes" and "k \<noteq> ''effects_interest''"
  shows "map_of d k = Some v"
proof -
  from assms(1) obtain c0 c1 where
    lit: "dict_literal [] kvs = Inr c0" and asg: "assign_all c0 kes = Inr c1"
    and d: "d = append_effects_interest_contrast cols c1"
    by (auto simp: then_do_def split: sum.splits)
  show ?thesis
    using dict_literal_last [OF lit assms(2,3)] assign_all_map_of [OF asg assms(4)] assms(5)
    by (simp add: d append_effects_interest_map_of)
qed

lemma mtt_we_string:
  assumes "mtt_we_relative (Some cols) = Inr d"
  shows "map_of d ''we_all_event_response'' = Some (Str ''we_all_event_response'')"
  by (rule mtt_shape [OF assms [unfolded mtt_we_relative_def Let_def option.case]]) simp_all

lemma mtt_sn_string:
  assumes "mtt_sn_relative (Some cols) = Inr d"
  shows "map_of d ''sn_all_event_response'' = Some (Str ''sn_all_event_response'')"
  by (rule mtt_shape [OF assms [unfolded mtt_sn_relative_def Let_def option.case]]) simp_all

text \<open>
  Claim C2 does not hold of the code. Whenever \<open>mtt_we_relative\<close> returns a contrast
  set, the value under \<open>we_all_event_response\<close> is the string
  \<open>we_all_event_response\<close>, not a vector; \<open>mtt_sn_relative\<close> does the same with
  \<open>sn_all_event_response\<close>.
\<close>

theorem mtt_event_response_is_string:
  "(mtt_we_relative (Some cols) = Inr d \<longrightarrow>
      map_of d ''we_all_event_response'' = Some (Str ''we_all_event_response'')) \<and>
   (mtt_sn_relative (Some cols) = Inr d \<longrightarrow>
      map_of d ''sn_all_event_response'' = Some (Str ''sn_all_event_response''))"
  using mtt_we_string mtt_sn_string by blast

theorem mtt_event_response_is_string_witness:
  "\<not> isl (mtt_we_relative (Some
      [''we_all_reference'', ''we_all_space_cue'', ''we_all_time_cue'',
       ''we_westside_close_event'', ''we_westside_far_event'',
       ''we_eastside_close_event'', ''we_eastside_far_event'',
       ''we_before_close_event'', ''we_before_far_event'',
       ''we_after_close_event'', ''we_after_far_event''])) \<and>
   map_of (projr (mtt_we_relative (Some
      [''we_all_reference'', ''we_all_space_cue'', ''we_all_time_cue'',
       ''we_westside_close_event'', ''we_westside_far_event'',
       ''we_eastside_close_event'', ''we_eastside_far_event'',
       ''we_before_close_event'', ''we_before_far_event'',
       ''we_after_close_event'', ''we_after_far_event''])))
     ''we_all_event_response'' = Some (Str ''we_all_event_response'') \<and>
   \<not> isl (mtt_sn_relative (Some
      [''sn_all_reference'', ''sn_all_space_cue'', ''sn_all_time_cue'',
       ''sn_southside_close_event'', ''sn_southside_far_event'',
       ''sn_northside_close_event'', ''sn_northside_far_event'',
       ''sn_before_close_event'', ''sn_before_far_event'',
       ''sn_after_close_event'', ''sn_after_far_event''])) \<and>
   map_of (projr (mtt_sn_relative (Some
      [''sn_all_reference'', ''sn_all_space_cue'', ''sn_all_time_cue'',
       ''sn_southside_close_event'', ''sn_southside_far_event'',
       ''sn_northside_close_event'', ''sn_northside_far_event'',
       ''sn_before_close_event'', ''sn_before_far_event'',
       ''sn_after_close_event'', ''sn_after_far_event''])))
     ''sn_all_event_response'' = Some (Str ''sn_all_event_response'')"
proof -
  let ?we = "[''we_all_reference'', ''we_all_space_cue'', ''we_all_time_cue'',
       ''we_westside_close_event'', ''we_westside_far_event'',
       ''we_eastside_close_event'', ''we_eastside_far_event'',
       ''we_before_close_event'', ''we_before_far_event'',
       ''we_after_close_event'', ''we_after_far_event'']"
  let ?sn = "[''sn_all_reference'', ''sn_all_space_cue'', ''sn_all_time_cue'',
       ''sn_southside_close_event'', ''sn_southside_far_event'',
       ''sn_northside_close_event'', ''sn_northside_far_event'',
       ''sn_before_close_event'', ''sn_before_far_event'',
       ''sn_after_close_event'', ''sn_after_far_event'']"
  have r: "\<not> isl (mtt_we_relative (Some ?we))"
    by code_simp
  then have we: "mtt_we_relative (Some ?we) = Inr (projr (mtt_we_relative (Some ?we)))"
    by (cases "mtt_we_relative (Some ?we)") simp_all
  have r': "\<not> isl (mtt_sn_relative (Some ?sn))"
    by code_simp
  then have sn: "mtt_sn_relative (Some ?sn) = Inr (projr (mtt_sn_relative (Some ?sn)))"
    by (cases "mtt_sn_relative (Some ?sn)") simp_all
  from mtt_event_response_is_string [of ?we "projr (mtt_we_relative (Some ?we))"] we
  have a: "map_of (projr (mtt_we_relative (Some ?we))) ''we_all_event_response'' =
             Some (Str ''we_all_event_response'')"
    by blast
  from mtt_event_response_is_string [of ?sn "projr (mtt_sn_relative (Some ?sn))"] sn
  have b: "map_of (projr (mtt_sn_relative (Some ?sn))) ''sn_all_event_response'' =
             Some (Str ''sn_all_event_response'')"
    by blast
  show ?thesis using r r' a b by blast
qed

section \<open>Properties of the dispatcher\<close>

text \<open>
  Claim C5. Whatever the columns, the three wedge identifiers are answered by the one
  definition \<open>wedge\<close> and the three ring identifiers by the one definition \<open>ring\<close>.
\<close>

theorem dispatcher_families:
  "make_contrasts defs ''wedge'' dmc = wedge dmc \<and>
   make_contrasts defs ''wedge_anti'' dmc = wedge dmc \<and>
   make_contrasts defs ''wedge_clock'' dmc = wedge dmc \<and>
   make_contrasts defs ''ring'' dmc = ring dmc \<and>
   make_contrasts defs ''cont_ring'' dmc = ring dmc \<and>
   make_contrasts defs ''exp_ring'' dmc = ring dmc"
  by (simp add: make_contrasts_def)

lemma dict_literal_nonempty:
  assumes "dict_literal acc kvs = Inr d" and "kvs \<noteq> []"
  shows "d \<noteq> []"
proof
  assume "d = []"
  with dict_literal_keys [OF assms(1)] have "fst ` set kvs = {}" by (simp add: keys_def)
  with assms(2) show False by simp
qed

lemma extended_nonempty:
  "c \<noteq> [] \<Longrightarrow>
     append_effects_interest_contrast cols (append_derivative_contrast cols c) \<noteq> []"
  by (simp add: append_effects_interest_contrast_def append_derivative_contrast_def Let_def)

lemma preferences_not_empty: "preferences dmc domain \<noteq> Inr []"
proof (cases "domain \<in> set [''painting'', ''house'', ''face'', ''food'']")
  case False
  then show ?thesis by (simp add: preferences_def)
next
  case True
  let ?names = "[domain @ ''_linear'', domain @ ''_constant'', domain @ ''_quadratic'']"
  show ?thesis
  proof (cases dmc)
    case None
    have "declared ?names \<noteq> Inr []"
      using dict_literal_nonempty [of "[]" "map (\<lambda>name. (name, Inr (Vec []))) ?names" "[]"]
      by (auto simp: declared_def simp del: dict_literal.simps)
    with True None show ?thesis by (simp add: preferences_def del: dict_literal.simps)
  next
    case (Some cols)
    let ?lit = "dict_literal [] (map (\<lambda>key. (key, getitem (elementary_contrasts cols) key)) ?names)"
    have eq: "preferences dmc domain = then_do ?lit (check_and_extend cols ?names)"
      using True Some by (simp add: preferences_def Let_def del: dict_literal.simps)
    show ?thesis
    proof (cases ?lit)
      case (Inl e)
      then show ?thesis by (simp add: eq then_do_def del: dict_literal.simps)
    next
      case (Inr c)
      then have "c \<noteq> []"
        using dict_literal_nonempty [of "[]" _ c] by (simp del: dict_literal.simps)
      then show ?thesis
        using Inr extended_nonempty [of c cols]
        by (auto simp: eq then_do_def check_and_extend_def simp del: dict_literal.simps)
    qed
  qed
qed

text \<open>
  Claim C6, as amended. An identifier that is none of the explicit identifiers of the
  dispatcher and does not start with \<open>preference\<close> raises \<^verbatim>\<open>ValueError\<close> with
  the message \<open>paradigm_id @ '' Unknown paradigm''\<close>. An identifier that starts with
  \<open>preference\<close> and whose domain (the characters after the eleventh, less one final
  \<open>s\<close>) is not empty and is none of \<open>painting, house, face, food\<close> raises
  \<^verbatim>\<open>ValueError\<close> with the message \<open>Not a correct domain\<close>, which does not name the
  identifier. For no identifier outside the explicit ones is an empty contrast set
  returned.
\<close>

theorem unknown_paradigm:
  "(paradigm_id \<notin> set explicit_identifiers \<and> take 10 paradigm_id \<noteq> ''preference'' \<longrightarrow>
      make_contrasts defs paradigm_id dmc =
        Inl (ValueError (paradigm_id @ '' Unknown paradigm''))) \<and>
   (take 10 paradigm_id = ''preference'' \<and> drop 11 paradigm_id \<noteq> [] \<and>
    (if last (drop 11 paradigm_id) = CHR ''s'' then butlast (drop 11 paradigm_id)
     else drop 11 paradigm_id) \<notin> set [''painting'', ''house'', ''face'', ''food''] \<longrightarrow>
      make_contrasts defs paradigm_id dmc = Inl (ValueError ''Not a correct domain'')) \<and>
   (paradigm_id \<notin> set explicit_identifiers \<longrightarrow> make_contrasts defs paradigm_id dmc \<noteq> Inr [])"
proof (intro conjI impI)
  assume "paradigm_id \<notin> set explicit_identifiers \<and> take 10 paradigm_id \<noteq> ''preference''"
  then show "make_contrasts defs paradigm_id dmc =
        Inl (ValueError (paradigm_id @ '' Unknown paradigm''))"
    by (simp add: explicit_identifiers_def make_contrasts_def)
next
  assume a: "take 10 paradigm_id = ''preference'' \<and> drop 11 paradigm_id \<noteq> [] \<and>
    (if last (drop 11 paradigm_id) = CHR ''s'' then butlast (drop 11 paradigm_id)
     else drop 11 paradigm_id) \<notin> set [''painting'', ''house'', ''face'', ''food'']"
  define domain where "domain =
    (if last (drop 11 paradigm_id) = CHR ''s'' then butlast (drop 11 paradigm_id)
     else drop 11 paradigm_id)"
  from a have t: "take 10 paradigm_id = ''preference''" and n: "drop 11 paradigm_id \<noteq> []"
    and nd: "domain \<notin> set [''painting'', ''house'', ''face'', ''food'']"
    unfolding domain_def by blast+
  from t have ne: "paradigm_id \<notin> set explicit_identifiers"
    by (auto simp: explicit_identifiers_def)
  have "make_contrasts defs paradigm_id dmc = preferences dmc domain"
    unfolding domain_def using t n ne
    by (simp add: explicit_identifiers_def make_contrasts_def Let_def)
  also have "\<dots> = Inl (ValueError ''Not a correct domain'')"
    using nd by (simp add: preferences_def)
  finally show "make_contrasts defs paradigm_id dmc = Inl (ValueError ''Not a correct domain'')" .
next
  assume "paradigm_id \<notin> set explicit_identifiers"
  then show "make_contrasts defs paradigm_id dmc \<noteq> Inr []"
    using preferences_not_empty
    by (simp add: explicit_identifiers_def make_contrasts_def Let_def)
qed

theorem unknown_paradigm_witness:
  "''foo'' \<notin> set explicit_identifiers \<and> take 10 ''foo'' \<noteq> ''preference'' \<and>
   make_contrasts (\<lambda>name cols. Inr []) ''foo'' (Some [''a'', ''b'']) =
     Inl (ValueError ''foo Unknown paradigm'') \<and>
   make_contrasts (\<lambda>name cols. Inr []) ''preference_xyz'' (Some [''a'', ''b'']) =
     Inl (ValueError ''Not a correct domain'') \<and>
   ''preference_faces'' \<notin> set explicit_identifiers \<and>
   make_contrasts (\<lambda>name cols. Inr []) ''preference_faces'' None \<noteq> Inr []"
proof -
  have h1: "''foo'' \<notin> set explicit_identifiers \<and> take 10 ''foo'' \<noteq> ''preference''"
    by (simp add: explicit_identifiers_def)
  have h2: "take 10 ''preference_xyz'' = ''preference'' \<and> drop 11 ''preference_xyz'' \<noteq> [] \<and>
    (if last (drop 11 ''preference_xyz'') = CHR ''s'' then butlast (drop 11 ''preference_xyz'')
     else drop 11 ''preference_xyz'') \<notin> set [''painting'', ''house'', ''face'', ''food'']"
    by simp
  have h3: "''preference_faces'' \<notin> set explicit_identifiers"
    by (simp add: explicit_identifiers_def)
  note a = unknown_paradigm [of "''foo''" "\<lambda>name cols. Inr []" "Some [''a'', ''b'']",
      THEN conjunct1, rule_format, OF h1]
  note b = unknown_paradigm [of "''preference_xyz''" "\<lambda>name cols. Inr []" "Some [''a'', ''b'']",
      THEN conjunct2, THEN conjunct1, rule_format, OF h2]
  note c = unknown_paradigm [of "''preference_faces''" "\<lambda>name cols. Inr []" None,
      THEN conjunct2, THEN conjunct2, rule_format, OF h3]
  from h1 h3 a b c show ?thesis by simp
qed

text \<open>
  Claim C6 as stated fails for identifiers that start with \<open>preference\<close>:
  \<open>preference_xyz\<close> is not an identifier of the specification, and the error does
  not name it; \<open>preference\<close> stops on \<^verbatim>\<open>IndexError\<close>.
\<close>

theorem unknown_paradigm_counterexample:
  "''preference_xyz'' \<notin> set spec_identifiers \<and>
   make_contrasts (\<lambda>name cols. Inr []) ''preference_xyz'' None =
     Inl (ValueError ''Not a correct domain'') \<and>
   ''preference'' \<notin> set spec_identifiers \<and>
   make_contrasts (\<lambda>name cols. Inr []) ''preference'' None = Inl IndexError"
  by (simp add: spec_identifiers_def explicit_identifiers_def make_contrasts_def preferences_def)

section \<open>The polynomial contrasts of the six-level paradigm\<close>

lemma sequence_Inr: "sequence (map Inr xs) = Inr xs"
  by (induction xs) simp_all

lemma np_array_vectors: "np_array (map (\<lambda>i. Inr (Vec (f i))) is) = Inr (map f is)"
proof -
  have a: "map (\<lambda>i. Inr (Vec (f i))) is = map Inr (map (\<lambda>i. Vec (f i)) is)"
    by simp
  have b: "map un_vec (map (\<lambda>i. Vec (f i)) is) = map Inr (map f is)"
    by simp
  show ?thesis
    unfolding np_array_def a sequence_Inr then_do_def by (simp only: sum.case b sequence_Inr)
qed

lemma response_names:
  "map (\<lambda>i. ''response_num_'' @ str_of_nat i) [1..<7] =
     [''response_num_1'', ''response_num_2'', ''response_num_3'',
      ''response_num_4'', ''response_num_5'', ''response_num_6'']"
  by code_simp

text \<open>The values of \<^verbatim>\<open>np.linspace(-1, 1, 6)\<close> and of the quadratic coefficients.\<close>

lemma linspace_6:
  "linspace (- 1) 1 6 =
     [- 1, - (5404319552844595 / 9007199254740992), - (900719925474099 / 4503599627370496),
      225179981368525 / 1125899906842624, 1351079888211149 / 2251799813685248, 1]"
  by code_simp

lemma quadratic_6:
  "map (\<lambda>s. fl (s - mean (map (\<lambda>x. fl (x * x))
       [- 1, - (5404319552844595 / 9007199254740992), - (900719925474099 / 4503599627370496),
        225179981368525 / 1125899906842624, 1351079888211149 / 2251799813685248, 1])))
     (map (\<lambda>x. fl (x * x))
       [- 1, - (5404319552844595 / 9007199254740992), - (900719925474099 / 4503599627370496),
        225179981368525 / 1125899906842624, 1351079888211149 / 2251799813685248, 1]) =
   [2401919801264265 / 4503599627370496, - (1921535841011411 / 18014398509481984),
    - (3843071682022823 / 9007199254740992), - (1921535841011411 / 4503599627370496),
    - (1921535841011409 / 18014398509481984), 2401919801264265 / 4503599627370496]"
  by code_simp

lemma coefficients_are_doubles:
  "list_all (\<lambda>x. fl x = x) [1, 1, 1, 1, 1, 1]"
  "list_all (\<lambda>x. fl x = x)
     [- 1, - (5404319552844595 / 9007199254740992), - (900719925474099 / 4503599627370496),
      225179981368525 / 1125899906842624, 1351079888211149 / 2251799813685248, 1]"
  "list_all (\<lambda>x. fl x = x)
     [2401919801264265 / 4503599627370496, - (1921535841011411 / 18014398509481984),
      - (3843071682022823 / 9007199254740992), - (1921535841011411 / 4503599627370496),
      - (1921535841011409 / 18014398509481984), 2401919801264265 / 4503599627370496]"
  by code_simp+

lemma vstm_names_sorted:
  "sort (keys [(''vstm_constant'', a), (''vstm_linear'', b), (''vstm_quadratic'', c)]) =
   sort [''vstm_linear'', ''vstm_constant'', ''vstm_quadratic'']"
proof -
  have "sort [''vstm_constant'', ''vstm_linear'', ''vstm_quadratic''] =
        sort [''vstm_linear'', ''vstm_constant'', ''vstm_quadratic'']"
    by code_simp
  then show ?thesis by (simp add: keys_def)
qed

lemma fl_0: "fl 0 = 0"
  by (simp add: fl_def)

text \<open>A running sum of products with a basis column that the positions do not hit.\<close>

lemma pick_absent:
  "fl acc = acc \<Longrightarrow> j \<notin> set is \<Longrightarrow>
     foldl (\<lambda>acc (ck, i). fl (acc + fl (ck * (if j = i then 1 else 0)))) acc (zip c is) = acc"
proof (induction "is" arbitrary: c)
  case Nil
  then show ?case by simp
next
  case (Cons i "is")
  show ?case
  proof (cases c)
    case Nil
    then show ?thesis by simp
  next
    case (Cons x xs)
    with Cons.prems Cons.IH [of xs] show ?thesis by (simp add: fl_0)
  qed
qed

lemma pick_present:
  "distinct is \<Longrightarrow> k < length is \<Longrightarrow> length c = length is \<Longrightarrow> list_all (\<lambda>x. fl x = x) c \<Longrightarrow>
     foldl (\<lambda>acc (ck, i). fl (acc + fl (ck * (if is ! k = i then 1 else 0)))) 0 (zip c is) = c ! k"
proof (induction "is" arbitrary: c k)
  case Nil
  then show ?case by simp
next
  case (Cons i "is")
  then obtain x xs where c: "c = x # xs" by (cases c) auto
  show ?case
  proof (cases k)
    case 0
    from Cons.prems c have "fl x = x" and "i \<notin> set is" by auto
    with c 0 pick_absent [of x i "is" xs] show ?thesis by (simp add: fl_0)
  next
    case (Suc k')
    with Cons.prems have "is ! k' \<noteq> i" by auto
    with Cons.prems Cons.IH [of k' xs] c Suc show ?thesis by (simp add: fl_0)
  qed
qed

lemma dot_basis_entry:
  assumes "j < n"
  shows "foldl (\<lambda>acc (ck, row). fl (acc + fl (ck * row ! j))) a (zip c (map (eye_row n) is)) =
         foldl (\<lambda>acc (ck, i). fl (acc + fl (ck * (if j = i then 1 else 0)))) a (zip c is)"
proof (induction "is" arbitrary: c a)
  case Nil
  then show ?case by simp
next
  case (Cons i "is")
  show ?case
  proof (cases c)
    case Nil
    then show ?thesis by simp
  next
    case (Cons x xs)
    have "eye_row n i ! j = (if j = i then 1 else 0)"
      using assms by (simp add: eye_row_def)
    with Cons Cons.IH [of _ xs] show ?thesis by simp
  qed
qed

text \<open>
  The dot product of coefficients that are doubles with basis vectors of distinct
  columns: the coefficient of a level stands at the column of that level, and every
  other column has 0.
\<close>

lemma np_dot_basis:
  assumes "distinct is" and "list_all (\<lambda>i. i < n) is" and "is \<noteq> []"
    and "length c = length is" and "list_all (\<lambda>x. fl x = x) c"
  shows "\<exists>w. np_dot c (map (eye_row n) is) = Inr (Vec w) \<and> placed_at is n c w"
proof -
  let ?w = "map (\<lambda>j. foldl (\<lambda>acc (ck, row). fl (acc + fl (ck * row ! j))) 0
                       (zip c (map (eye_row n) is))) [0..<n]"
  have dot: "np_dot c (map (eye_row n) is) = Inr (Vec ?w)"
    using assms(3,4) by (cases "is") (simp_all add: np_dot_def eye_row_def)
  have entry: "?w ! j =
      foldl (\<lambda>acc (ck, i). fl (acc + fl (ck * (if j = i then 1 else 0)))) 0 (zip c is)"
    if "j < n" for j
    using that by (simp add: dot_basis_entry)
  have a: "?w ! (is ! k) = c ! k" if "k < length is" for k
  proof -
    from that assms(2) have "is ! k < n" by (simp add: list_all_length)
    with entry [of "is ! k"] pick_present [OF assms(1) that assms(4,5)] show ?thesis by simp
  qed
  have b: "j \<in> set is \<or> ?w ! j = 0" if "j < n" for j
    using entry [OF that] pick_absent [of 0 j "is" c] by (auto simp: fl_0)
  have "list_all (\<lambda>k. ?w ! (is ! k) = c ! k) [0..<length is]"
    using a by (simp add: list_all_iff)
  moreover have "list_all (\<lambda>j. j \<in> set is \<or> ?w ! j = 0) [0..<n]"
    using b by (simp add: list_all_iff)
  ultimately have "placed_at is n c ?w" by (simp add: placed_at_def)
  with dot show ?thesis by blast
qed

lemma vstm_returns:
  assumes "distinct cols"
    and "list_all (\<lambda>i. i < length cols) is"
    and "map ((!) cols) is =
           [''response_num_1'', ''response_num_2'', ''response_num_3'',
            ''response_num_4'', ''response_num_5'', ''response_num_6'']"
    and "response = map (eye_row (length cols)) is"
    and "np_dot [1, 1, 1, 1, 1, 1] response = Inr (Vec w1)"
    and "np_dot
     [- 1, - (5404319552844595 / 9007199254740992),
      - (900719925474099 / 4503599627370496), 225179981368525 / 1125899906842624,
      1351079888211149 / 2251799813685248, 1] response = Inr (Vec w2)"
    and "np_dot
     [2401919801264265 / 4503599627370496, - (1921535841011411 / 18014398509481984),
      - (3843071682022823 / 9007199254740992), - (1921535841011411 / 4503599627370496),
      - (1921535841011409 / 18014398509481984), 2401919801264265 / 4503599627370496] response = Inr (Vec w3)"
  shows "vstm (Some cols) =
           Inr (append_effects_interest_contrast cols (append_derivative_contrast cols
                  [(''vstm_constant'', Vec w1), (''vstm_linear'', Vec w2),
                   (''vstm_quadratic'', Vec w3)]))"
proof -
  let ?con = "elementary_contrasts cols"
  have "map (\<lambda>i. getitem ?con (''response_num_'' @ str_of_nat i)) [1..<7] =
          map (getitem ?con) (map (\<lambda>i. ''response_num_'' @ str_of_nat i) [1..<7])"
    by (simp del: str_of_nat.simps upt_Suc)
  also have "\<dots> = map (getitem ?con) (map ((!) cols) is)"
    by (simp only: response_names assms(3))
  also have "\<dots> = map (\<lambda>i. Inr (Vec (eye_row (length cols) i))) is"
    using assms(1,2) by (auto simp: list_all_iff getitem_elementary_distinct)
  finally have resp:
    "np_array (map (\<lambda>i. getitem ?con (''response_num_'' @ str_of_nat i)) [1..<7]) = Inr response"
    by (simp only: np_array_vectors assms(4))
  have rep: "replicate 6 (1::rat) = [1, 1, 1, 1, 1, 1]"
    by (simp add: numeral_eq_Suc)
  show ?thesis
    unfolding vstm_def Let_def option.case resp linspace_6 quadratic_6 rep
    by (simp add: then_do_def assms(5,6,7) check_and_extend_def vstm_names_sorted)
qed

lemma placed_at_all:
  assumes "placed_at [0..<m] m c w" and "length c = m"
  shows "w = c"
proof (rule nth_equalityI)
  show "length w = length c"
    using assms by (simp add: placed_at_def)
next
  fix i assume "i < length w"
  then have i: "i < m" using assms by (simp add: placed_at_def)
  from assms(1) have "list_all (\<lambda>k. w ! ([0..<m] ! k) = c ! k) [0..<m]"
    by (simp add: placed_at_def)
  with i show "w ! i = c ! i"
    by (simp add: list_all_iff)
qed

lemma placed_at_prefix:
  assumes "placed_at [0..<m] n c w" and "length c = m" and "m \<le> n"
  shows "w = c @ replicate (n - m) 0"
proof (rule nth_equalityI)
  show "length w = length (c @ replicate (n - m) 0)"
    using assms by (simp add: placed_at_def)
next
  fix i assume "i < length w"
  then have i: "i < n" using assms by (simp add: placed_at_def)
  from assms(1) have a: "list_all (\<lambda>k. w ! ([0..<m] ! k) = c ! k) [0..<m]"
    and b: "list_all (\<lambda>j. j \<in> set [0..<m] \<or> w ! j = 0) [0..<n]"
    by (simp_all add: placed_at_def)
  show "w ! i = (c @ replicate (n - m) 0) ! i"
  proof (cases "i < m")
    case True
    with a assms(2) show ?thesis by (simp add: list_all_iff nth_append)
  next
    case False
    with b i have "w ! i = 0" by (auto simp: list_all_iff)
    with False i assms(2) show ?thesis by (simp add: nth_append)
  qed
qed

lemma spec_linear_values:
  "spec_linear =
     [- 1, - (5404319552844595 / 9007199254740992),
      - (3602879701896397 / 18014398509481984), 3602879701896397 / 18014398509481984,
      5404319552844595 / 9007199254740992, 1]"
  by code_simp

lemma spec_linear_doubles:
  "list_all (\<lambda>x. fl x = x)
     [- 1, - (5404319552844595 / 9007199254740992),
      - (3602879701896397 / 18014398509481984), 3602879701896397 / 18014398509481984,
      5404319552844595 / 9007199254740992, 1]"
  by code_simp

lemma upt_6: "[0, 1, 2, 3, 4, 5] = [0..<6]"
  by (simp add: upt_rec)

text \<open>
  Claim C8, as amended. Let the design matrix have distinct labels and let \<open>is\<close> list
  the positions of \<open>response_num_1\<close> to \<open>response_num_6\<close>, so that \<open>response\<close> is
  the stack of the six elementary vectors in the order of the levels. Then \<open>vstm\<close>
  returns; \<open>vstm_constant\<close> is the dot product of the all-ones vector with
  \<open>response\<close>, \<open>vstm_linear\<close> the dot product of the float64 values of
  \<^verbatim>\<open>np.linspace(-1, 1, 6)\<close> with it, and \<open>vstm_quadratic\<close> the dot product of
  their float64 squares minus the float64 mean of the squares. The linear coefficients
  are \<open>-1, -0.6, -0.19999999999999996, 0.20000000000000018, 0.6000000000000001, 1\<close>:
  each is within \<open>2 ^ -52\<close> of \<open>-1, -0.6, -0.2, 0.2, 0.6, 1\<close>. In each contrast
  the coefficient of a level stands at the column of that level and every other column
  has 0.
\<close>

theorem vstm_polynomial_contrasts:
  assumes "distinct cols"
    and "list_all (\<lambda>i. i < length cols) is"
    and "map ((!) cols) is =
           [''response_num_1'', ''response_num_2'', ''response_num_3'',
            ''response_num_4'', ''response_num_5'', ''response_num_6'']"
    and "response = map (eye_row (length cols)) is"
    and "lin =
     [- 1, - (5404319552844595 / 9007199254740992),
      - (900719925474099 / 4503599627370496), 225179981368525 / 1125899906842624,
      1351079888211149 / 2251799813685248, 1]"
    and "sq = map (\<lambda>x. fl (x * x)) lin"
    and "quad = map (\<lambda>s. fl (s - mean sq)) sq"
  shows "linspace (- 1) 1 6 = lin \<and>
         list_all2 (\<lambda>a b. \<bar>a - b\<bar> \<le> 1 / 2 ^ 52) lin [- 1, - (3 / 5), - (1 / 5), 1 / 5, 3 / 5, 1] \<and>
         (\<exists>d w1 w2 w3. vstm (Some cols) = Inr d \<and>
            getitem d ''vstm_constant'' = Inr (Vec w1) \<and>
            getitem d ''vstm_linear'' = Inr (Vec w2) \<and>
            getitem d ''vstm_quadratic'' = Inr (Vec w3) \<and>
            np_dot [1, 1, 1, 1, 1, 1] response = Inr (Vec w1) \<and>
            np_dot lin response = Inr (Vec w2) \<and>
            np_dot quad response = Inr (Vec w3) \<and>
            placed_at is (length cols) [1, 1, 1, 1, 1, 1] w1 \<and>
            placed_at is (length cols) lin w2 \<and>
            placed_at is (length cols) quad w3)"
proof -
  have len: "length is = 6"
    using arg_cong [OF assms(3), of length] by simp
  then have ne: "is \<noteq> []" by auto
  have dis: "distinct is"
  proof -
    have "distinct (map ((!) cols) is)" unfolding assms(3) by simp
    then show ?thesis by (simp add: distinct_map)
  qed
  have quad: "quad =
     [2401919801264265 / 4503599627370496, - (1921535841011411 / 18014398509481984),
      - (3843071682022823 / 9007199254740992), - (1921535841011411 / 4503599627370496),
      - (1921535841011409 / 18014398509481984), 2401919801264265 / 4503599627370496]"
    unfolding assms(5,6,7) by (rule quadratic_6)
  obtain w1 where w1: "np_dot [1, 1, 1, 1, 1, 1] response = Inr (Vec w1)"
      "placed_at is (length cols) [1, 1, 1, 1, 1, 1] w1"
    using np_dot_basis [OF dis assms(2) ne _ coefficients_are_doubles(1)] len
    unfolding assms(4) by auto
  obtain w2 where w2: "np_dot lin response = Inr (Vec w2)" "placed_at is (length cols) lin w2"
    using np_dot_basis [OF dis assms(2) ne _ coefficients_are_doubles(2)] len
    unfolding assms(4,5) by auto
  obtain w3 where w3: "np_dot quad response = Inr (Vec w3)" "placed_at is (length cols) quad w3"
    using np_dot_basis [OF dis assms(2) ne _ coefficients_are_doubles(3)] len
    unfolding assms(4) quad by auto
  let ?c = "[(''vstm_constant'', Vec w1), (''vstm_linear'', Vec w2), (''vstm_quadratic'', Vec w3)]"
  let ?d = "append_effects_interest_contrast cols (append_derivative_contrast cols ?c)"
  have lin6: "linspace (- 1) 1 6 = lin"
    unfolding assms(5) by (rule linspace_6)
  have ret: "vstm (Some cols) = Inr ?d"
    by (rule vstm_returns [OF assms(1,2,3,4) w1(1) w2(1) [unfolded assms(5)] w3(1) [unfolded quad]])
  have g1: "getitem ?d ''vstm_constant'' = Inr (Vec w1)"
    by (subst getitem_extended) (simp_all add: getitem_def)
  have g2: "getitem ?d ''vstm_linear'' = Inr (Vec w2)"
    by (subst getitem_extended) (simp_all add: getitem_def)
  have g3: "getitem ?d ''vstm_quadratic'' = Inr (Vec w3)"
    by (subst getitem_extended) (simp_all add: getitem_def)
  have close: "list_all2 (\<lambda>a b. \<bar>a - b\<bar> \<le> 1 / 2 ^ 52) lin
                 [- 1, - (3 / 5), - (1 / 5), 1 / 5, 3 / 5, 1]"
    unfolding assms(5) by simp
  from lin6 close ret g1 g2 g3 w1 w2 w3 show ?thesis by blast
qed

theorem vstm_polynomial_contrasts_witness:
  "distinct [''response_num_1'', ''response_num_2'', ''response_num_3'',
      ''response_num_4'', ''response_num_5'', ''response_num_6'', ''constant''] \<and>
   (\<exists>d. vstm (Some [''response_num_1'', ''response_num_2'', ''response_num_3'',
      ''response_num_4'', ''response_num_5'', ''response_num_6'', ''constant'']) = Inr d \<and>
        getitem d ''vstm_constant'' = Inr (Vec [1, 1, 1, 1, 1, 1, 0]) \<and>
        getitem d ''vstm_linear'' =
          Inr (Vec [- 1, - (5404319552844595 / 9007199254740992),
                    - (900719925474099 / 4503599627370496), 225179981368525 / 1125899906842624,
                    1351079888211149 / 2251799813685248, 1, 0]) \<and>
        getitem d ''vstm_quadratic'' =
          Inr (Vec [2401919801264265 / 4503599627370496, - (1921535841011411 / 18014398509481984),
                    - (3843071682022823 / 9007199254740992), - (1921535841011411 / 4503599627370496),
                    - (1921535841011409 / 18014398509481984), 2401919801264265 / 4503599627370496,
                    0]))"
proof -
  let ?C = "[''response_num_1'', ''response_num_2'', ''response_num_3'',
      ''response_num_4'', ''response_num_5'', ''response_num_6'', ''constant'']"
  let ?is = "[0..<6]"
  have h1: "distinct ?C" by simp
  have h2: "list_all (\<lambda>i. i < length ?C) ?is" by (simp add: upt_6 [symmetric])
  have h3: "map ((!) ?C) ?is = [''response_num_1'', ''response_num_2'', ''response_num_3'',
      ''response_num_4'', ''response_num_5'', ''response_num_6'']"
    by (simp add: upt_6 [symmetric])
  have n: "length ?C = 7" by simp
  have q: "[2401919801264265 / 4503599627370496, - (1921535841011411 / 18014398509481984),
      - (3843071682022823 / 9007199254740992), - (1921535841011411 / 4503599627370496),
      - (1921535841011409 / 18014398509481984), 2401919801264265 / 4503599627370496] =
     map (\<lambda>s. fl (s - mean (map (\<lambda>x. fl (x * x)) [- 1, - (5404319552844595 / 9007199254740992),
      - (900719925474099 / 4503599627370496), 225179981368525 / 1125899906842624,
      1351079888211149 / 2251799813685248, 1])))
       (map (\<lambda>x. fl (x * x)) [- 1, - (5404319552844595 / 9007199254740992),
      - (900719925474099 / 4503599627370496), 225179981368525 / 1125899906842624,
      1351079888211149 / 2251799813685248, 1])"
    by (rule quadratic_6 [symmetric])
  from vstm_polynomial_contrasts [OF h1 h2 h3 refl refl refl q]
  obtain d w1 w2 w3 where d: "vstm (Some ?C) = Inr d"
    and g: "getitem d ''vstm_constant'' = Inr (Vec w1)"
           "getitem d ''vstm_linear'' = Inr (Vec w2)"
           "getitem d ''vstm_quadratic'' = Inr (Vec w3)"
    and p: "placed_at ?is (length ?C) [1, 1, 1, 1, 1, 1] w1"
           "placed_at ?is (length ?C) [- 1, - (5404319552844595 / 9007199254740992),
      - (900719925474099 / 4503599627370496), 225179981368525 / 1125899906842624,
      1351079888211149 / 2251799813685248, 1] w2"
           "placed_at ?is (length ?C) [2401919801264265 / 4503599627370496, - (1921535841011411 / 18014398509481984),
      - (3843071682022823 / 9007199254740992), - (1921535841011411 / 4503599627370496),
      - (1921535841011409 / 18014398509481984), 2401919801264265 / 4503599627370496] w3"
    by blast
  have e1: "w1 = [1, 1, 1, 1, 1, 1, 0]"
    using placed_at_prefix [OF p(1) [unfolded n]] by (simp add: numeral_eq_Suc)
  have e2: "w2 = [- 1, - (5404319552844595 / 9007199254740992),
                    - (900719925474099 / 4503599627370496), 225179981368525 / 1125899906842624,
                    1351079888211149 / 2251799813685248, 1, 0]"
    using placed_at_prefix [OF p(2) [unfolded n]] by (simp add: numeral_eq_Suc)
  have e3: "w3 = [2401919801264265 / 4503599627370496, - (1921535841011411 / 18014398509481984),
                    - (3843071682022823 / 9007199254740992), - (1921535841011411 / 4503599627370496),
                    - (1921535841011409 / 18014398509481984), 2401919801264265 / 4503599627370496,
                    0]"
    using placed_at_prefix [OF p(3) [unfolded n]] by (simp add: numeral_eq_Suc)
  from d g h1 show ?thesis unfolding e1 e2 e3 by blast
qed

text \<open>
  Claim C8 as stated fails in float64: on the six response columns the linear contrast
  that \<open>vstm\<close> returns is not the vector of the doubles \<open>-1, -0.6, -0.2, 0.2, 0.6, 1\<close>;
  its third, fourth and fifth entries differ from them.
\<close>

theorem vstm_linear_counterexample:
  "vstm (Some [''response_num_1'', ''response_num_2'', ''response_num_3'',
      ''response_num_4'', ''response_num_5'', ''response_num_6'']) =
     Inr (append_effects_interest_contrast [''response_num_1'', ''response_num_2'', ''response_num_3'',
      ''response_num_4'', ''response_num_5'', ''response_num_6'']
           (append_derivative_contrast [''response_num_1'', ''response_num_2'', ''response_num_3'',
      ''response_num_4'', ''response_num_5'', ''response_num_6'']
              [(''vstm_constant'', Vec [1, 1, 1, 1, 1, 1]),
               (''vstm_linear'', Vec [- 1, - (5404319552844595 / 9007199254740992),
      - (900719925474099 / 4503599627370496), 225179981368525 / 1125899906842624,
      1351079888211149 / 2251799813685248, 1]),
               (''vstm_quadratic'', Vec [2401919801264265 / 4503599627370496, - (1921535841011411 / 18014398509481984),
      - (3843071682022823 / 9007199254740992), - (1921535841011411 / 4503599627370496),
      - (1921535841011409 / 18014398509481984), 2401919801264265 / 4503599627370496])])) \<and>
   np_dot spec_linear (map (eye_row 6) [0, 1, 2, 3, 4, 5]) =
     Inr (Vec [- 1, - (5404319552844595 / 9007199254740992),
      - (3602879701896397 / 18014398509481984), 3602879701896397 / 18014398509481984,
      5404319552844595 / 9007199254740992, 1]) \<and>
   [- 1, - (5404319552844595 / 9007199254740992),
      - (900719925474099 / 4503599627370496), 225179981368525 / 1125899906842624,
      1351079888211149 / 2251799813685248, 1] \<noteq>
   ([- 1, - (5404319552844595 / 9007199254740992),
      - (3602879701896397 / 18014398509481984), 3602879701896397 / 18014398509481984,
      5404319552844595 / 9007199254740992, 1] :: rat list)"
proof -
  let ?C = "[''response_num_1'', ''response_num_2'', ''response_num_3'',
      ''response_num_4'', ''response_num_5'', ''response_num_6'']"
  let ?is = "[0..<6]"
  let ?R = "map (eye_row (length ?C)) ?is"
  have h1: "distinct ?C" by simp
  have h2: "list_all (\<lambda>i. i < length ?C) ?is" by (simp add: upt_6 [symmetric])
  have h3: "map ((!) ?C) ?is = ?C" by (simp add: upt_6 [symmetric])
  have d: "distinct ?is" and ne: "?is \<noteq> []" by simp_all
  have n: "length ?C = 6" by simp
  obtain w1 where w1: "np_dot [1, 1, 1, 1, 1, 1] ?R = Inr (Vec w1)"
      "placed_at ?is (length ?C) [1, 1, 1, 1, 1, 1] w1"
    using np_dot_basis [OF d h2 ne _ coefficients_are_doubles(1)] by auto
  obtain w2 where w2: "np_dot [- 1, - (5404319552844595 / 9007199254740992),
      - (900719925474099 / 4503599627370496), 225179981368525 / 1125899906842624,
      1351079888211149 / 2251799813685248, 1] ?R = Inr (Vec w2)"
      "placed_at ?is (length ?C) [- 1, - (5404319552844595 / 9007199254740992),
      - (900719925474099 / 4503599627370496), 225179981368525 / 1125899906842624,
      1351079888211149 / 2251799813685248, 1] w2"
    using np_dot_basis [OF d h2 ne _ coefficients_are_doubles(2)] by auto
  obtain w3 where w3: "np_dot [2401919801264265 / 4503599627370496, - (1921535841011411 / 18014398509481984),
      - (3843071682022823 / 9007199254740992), - (1921535841011411 / 4503599627370496),
      - (1921535841011409 / 18014398509481984), 2401919801264265 / 4503599627370496] ?R = Inr (Vec w3)"
      "placed_at ?is (length ?C) [2401919801264265 / 4503599627370496, - (1921535841011411 / 18014398509481984),
      - (3843071682022823 / 9007199254740992), - (1921535841011411 / 4503599627370496),
      - (1921535841011409 / 18014398509481984), 2401919801264265 / 4503599627370496] w3"
    using np_dot_basis [OF d h2 ne _ coefficients_are_doubles(3)] by auto
  obtain w4 where w4: "np_dot [- 1, - (5404319552844595 / 9007199254740992),
      - (3602879701896397 / 18014398509481984), 3602879701896397 / 18014398509481984,
      5404319552844595 / 9007199254740992, 1] ?R = Inr (Vec w4)"
      "placed_at ?is (length ?C) [- 1, - (5404319552844595 / 9007199254740992),
      - (3602879701896397 / 18014398509481984), 3602879701896397 / 18014398509481984,
      5404319552844595 / 9007199254740992, 1] w4"
    using np_dot_basis [OF d h2 ne _ spec_linear_doubles] by auto
  have e1: "w1 = [1, 1, 1, 1, 1, 1]"
    by (rule placed_at_all [OF w1(2) [unfolded n]]) simp
  have e2: "w2 = [- 1, - (5404319552844595 / 9007199254740992),
      - (900719925474099 / 4503599627370496), 225179981368525 / 1125899906842624,
      1351079888211149 / 2251799813685248, 1]"
    by (rule placed_at_all [OF w2(2) [unfolded n]]) simp
  have e3: "w3 = [2401919801264265 / 4503599627370496, - (1921535841011411 / 18014398509481984),
      - (3843071682022823 / 9007199254740992), - (1921535841011411 / 4503599627370496),
      - (1921535841011409 / 18014398509481984), 2401919801264265 / 4503599627370496]"
    by (rule placed_at_all [OF w3(2) [unfolded n]]) simp
  have e4: "w4 = [- 1, - (5404319552844595 / 9007199254740992),
      - (3602879701896397 / 18014398509481984), 3602879701896397 / 18014398509481984,
      5404319552844595 / 9007199254740992, 1]"
    by (rule placed_at_all [OF w4(2) [unfolded n]]) simp
  have a: "vstm (Some ?C) =
     Inr (append_effects_interest_contrast ?C (append_derivative_contrast ?C
              [(''vstm_constant'', Vec w1), (''vstm_linear'', Vec w2),
               (''vstm_quadratic'', Vec w3)]))"
    by (rule vstm_returns [OF h1 h2 h3 refl w1(1) w2(1) w3(1)])
  have b: "np_dot spec_linear (map (eye_row 6) [0, 1, 2, 3, 4, 5]) = Inr (Vec w4)"
    using w4(1) unfolding spec_linear_values upt_6 n .
  have c: "[- 1, - (5404319552844595 / 9007199254740992),
      - (900719925474099 / 4503599627370496), 225179981368525 / 1125899906842624,
      1351079888211149 / 2251799813685248, 1] \<noteq>
   ([- 1, - (5404319552844595 / 9007199254740992),
      - (3602879701896397 / 18014398509481984), 3602879701896397 / 18014398509481984,
      5404319552844595 / 9007199254740992, 1] :: rat list)"
    by simp
  from a b c show ?thesis unfolding e1 e2 e3 e4 by blast
qed

section \<open>The floor of the group-level maps\<close>

text \<open>
  Claim C9, as amended. Each of the three maps keeps the fitted value of a voxel where
  that value exceeds \<open>-8.2095\<close> and is zero at every other voxel; so no value of the
  result is at or below the threshold.
\<close>

theorem maps_zeroed_below_threshold:
  "math_img_formula img = map (\<lambda>v. if v > - (82095 / 10000) then v else 0) img \<and>
   list_all (\<lambda>v. v > - (82095 / 10000)) (math_img_formula img) \<and>
   anova_maps (subject_map, contrast_map, acq_map) =
     (map (\<lambda>v. if v > - (82095 / 10000) then v else 0) subject_map,
      map (\<lambda>v. if v > - (82095 / 10000) then v else 0) contrast_map,
      map (\<lambda>v. if v > - (82095 / 10000) then v else 0) acq_map)"
proof -
  have a: "math_img_formula xs = map (\<lambda>v. if v > - (82095 / 10000) then v else 0) xs" for xs
    by (simp add: math_img_formula_def)
  have b: "list_all (\<lambda>v. v > - (82095 / 10000)) (math_img_formula img)"
    by (induction img) (simp_all add: math_img_formula_def)
  show ?thesis using a b by (simp add: anova_maps_def)
qed

text \<open>
  Claim C9 as stated fails at a voxel of value \<open>-9\<close>: a floor at the threshold gives
  \<open>-8.2095\<close> there, the code gives \<open>0\<close>.
\<close>

theorem floor_counterexample:
  "math_img_formula [- 9] = [0] \<and>
   spec_floor_at (- (82095 / 10000)) [- 9] = [- (82095 / 10000)]"
  by (simp add: math_img_formula_def spec_floor_at_def)

end
